theory Spec2Isabelle
  imports Main
begin

section \<open>JavaScript values and the operators the services use\<close>

text \<open>
  The services in \<^verbatim>\<open>src/services/api.ts\<close> and \<^verbatim>\<open>src/services/campaignApi.ts\<close>
  read backend JSON through the type \<^verbatim>\<open>any\<close>. Such values are modelled dynamically:
  \<open>Undefined\<close> is the result of reading a property that is not there, the other
  constructors are the JSON values. An object is the list of its own properties.
  Numbers are integers (every number the services compute on is a count, a page index
  or a time in seconds); the rounding of IEEE doubles beyond \<open>2^53\<close> is not modelled.
\<close>

datatype jsval =
    Undefined
  | JNull
  | JBool bool
  | JNum int
  | JStr string
  | JArr "jsval list"
  | JObj "(string \<times> jsval) list"

datatype error =
    Error string
  | TypeError
  | SyntaxError
  | RangeError
  | InvalidCharacterError

text \<open>Truthiness, as \<^verbatim>\<open>!x\<close>, \<^verbatim>\<open>x ? a : b\<close> and \<^verbatim>\<open>x || y\<close> test it.\<close>

fun truthy :: "jsval \<Rightarrow> bool" where
  "truthy Undefined = False"
| "truthy JNull = False"
| "truthy (JBool b) = b"
| "truthy (JNum n) = (n \<noteq> 0)"
| "truthy (JStr s) = (s \<noteq> [])"
| "truthy (JArr xs) = True"
| "truthy (JObj kvs) = True"

definition js_or :: "jsval \<Rightarrow> jsval \<Rightarrow> jsval" where
  "js_or a b = (if truthy a then a else b)"

text \<open>
  Property access \<^verbatim>\<open>v.k\<close>: a TypeError on \<^verbatim>\<open>undefined\<close> and \<^verbatim>\<open>null\<close>, the own
  property of an object, and \<^verbatim>\<open>undefined\<close> otherwise (none of the property names the
  services read is defined by a built-in prototype).
\<close>

fun get_prop :: "jsval \<Rightarrow> string \<Rightarrow> error + jsval" where
  "get_prop Undefined k = Inl TypeError"
| "get_prop JNull k = Inl TypeError"
| "get_prop (JObj kvs) k = Inr (case map_of kvs k of None \<Rightarrow> Undefined | Some v \<Rightarrow> v)"
| "get_prop v k = Inr Undefined"

fun isArray :: "jsval \<Rightarrow> bool" where
  "isArray (JArr xs) = True"
| "isArray v = False"

text \<open>\<^verbatim>\<open>Number.prototype.toString\<close> on an integer: decimal digits, a minus sign first.\<close>

definition digit_char :: "nat \<Rightarrow> char" where
  "digit_char d = ''0123456789'' ! d"

fun digits :: "nat \<Rightarrow> string" where
  "digits n = (if n < 10 then [digit_char n] else digits (n div 10) @ [digit_char (n mod 10)])"

declare digits.simps [simp del]

definition num_toString :: "int \<Rightarrow> string" where
  "num_toString i = (if i < 0 then CHR ''-'' # digits (nat (- i)) else digits (nat i))"

fun join :: "string \<Rightarrow> string list \<Rightarrow> string" where
  "join sep [] = []"
| "join sep [s] = s"
| "join sep (s # t # ss) = s @ sep @ join sep (t # ss)"

text \<open>
  The string a value turns into when \<^verbatim>\<open>+\<close> concatenates it with a string: the value
  itself for a string, \<^verbatim>\<open>Array.prototype.join\<close> for an array (\<^verbatim>\<open>null\<close> and
  \<^verbatim>\<open>undefined\<close> elements give the empty string) and \<^verbatim>\<open>[object Object]\<close> for an object.
\<close>

fun js_toString :: "jsval \<Rightarrow> string" where
  "js_toString Undefined = ''undefined''"
| "js_toString JNull = ''null''"
| "js_toString (JBool b) = (if b then ''true'' else ''false'')"
| "js_toString (JNum n) = num_toString n"
| "js_toString (JStr s) = s"
| "js_toString (JArr xs) =
     join '','' (map (\<lambda>x. if x = Undefined \<or> x = JNull then [] else js_toString x) xs)"
| "js_toString (JObj kvs) = ''[object Object]''"

text \<open>
  \<^verbatim>\<open>xs.map((x, index) => ...)\<close> with a callback that may throw: the first exception
  aborts the traversal. On a value that is not an array \<^verbatim>\<open>.map\<close> is not a function.
\<close>

fun mapE :: "(nat \<Rightarrow> 'a \<Rightarrow> error + 'b) \<Rightarrow> nat \<Rightarrow> 'a list \<Rightarrow> error + 'b list" where
  "mapE f i [] = Inr []"
| "mapE f i (x # xs) =
     (case f i x of
        Inl e \<Rightarrow> Inl e
      | Inr y \<Rightarrow> (case mapE f (Suc i) xs of Inl e \<Rightarrow> Inl e | Inr ys \<Rightarrow> Inr (y # ys)))"

definition array_map :: "(nat \<Rightarrow> jsval \<Rightarrow> error + 'b) \<Rightarrow> jsval \<Rightarrow> error + 'b list" where
  "array_map f v = (case v of JArr xs \<Rightarrow> mapE f 0 xs | _ \<Rightarrow> Inl TypeError)"

section \<open>The platform: secure storage, toasts, network, clock\<close>

text \<open>
  The services act on three external collaborators. They are explicit here:
  the \<open>world\<close> is what a call can change (the token under the key \<^verbatim>\<open>userToken\<close> of
  the secure store, the toasts shown, the requests sent), the \<open>platform\<close> is what a call
  can only read (the configured base URL, the clock, the backend's answer to a request,
  and the built-ins \<^verbatim>\<open>atob\<close>, \<^verbatim>\<open>JSON.parse\<close>, string-to-number conversion,
  \<^verbatim>\<open>Date.prototype.toISOString\<close> and \<^verbatim>\<open>String.prototype.trim\<close>, each \<open>None\<close> where the
  built-in throws or yields NaN; \<^verbatim>\<open>trim\<close> strips every Unicode white space and line
  terminator, which a byte string does not single out, so it is taken from the platform).
  The secure store itself is taken to be reliable: its get and delete do not fail.
  Console output is not part of the model; an exception thrown while the argument of a
  log call is built is.
\<close>

text \<open>
  The two request bodies the services serialise with \<^verbatim>\<open>JSON.stringify\<close>. A field of
  type \<open>bool option\<close> is a key the object may lack (\<open>None\<close>).
\<close>

record LeadsRequestBody =
  b_searchTerm :: string
  b_selectedAgents :: "string list"
  b_selectedStatuses :: "string list"
  b_selectedSources :: "string list"
  b_selectedTags :: "string list"
  b_date :: "string list"
  b_dateFor :: string
  b_searchBoxFilters :: "string list"
  b_page :: int
  b_limit :: string
  b_userid :: string
  b_includeNonAssigned :: "bool option"
  b_viewAllLeads :: "bool option"

record CampaignRequestBody =
  cb_campaignName :: string
  cb_page :: int
  cb_limit :: int

datatype req_payload =
    NoPayload
  | LeadsPayload LeadsRequestBody
  | CampaignPayload CampaignRequestBody

record request =
  req_method :: string
  req_url :: string
  req_query :: "(string \<times> string) list"
  req_headers :: "(string \<times> string) list"
  req_payload :: req_payload

record response =
  resp_status :: nat
  resp_body :: string

text \<open>A fetch settles after some milliseconds, rejected or with a response.\<close>

datatype net_outcome = Rejected nat error | Responded nat response

record platform =
  base_url :: string
  now_ms :: int
  net :: "request \<Rightarrow> net_outcome"
  atob :: "string \<Rightarrow> string option"
  JSON_parse :: "string \<Rightarrow> jsval option"
  StringToNumber :: "string \<Rightarrow> int option"
  toISOString :: "int \<Rightarrow> string"
  trim :: "string \<Rightarrow> string"

record world =
  userToken :: "string option"
  toasts :: "string list"
  requests :: "request list"

text \<open>\<^verbatim>\<open>response.ok\<close>: the status is in the range 200 to 299.\<close>

definition resp_ok :: "response \<Rightarrow> bool" where
  "resp_ok r = (200 \<le> resp_status r \<and> resp_status r \<le> 299)"

text \<open>\<^verbatim>\<open>response.json()\<close>: the parsed body, or a SyntaxError.\<close>

definition resp_json :: "platform \<Rightarrow> response \<Rightarrow> error + jsval" where
  "resp_json P r = (case JSON_parse P (resp_body r) of None \<Rightarrow> Inl SyntaxError | Some v \<Rightarrow> Inr v)"

text \<open>
  An asynchronous operation: from a world to a result or a thrown error, and the world
  after it. \<open>bind_io\<close> is sequencing with \<^verbatim>\<open>await\<close>, \<open>try_catch\<close> is a
  \<^verbatim>\<open>try { ... } catch (e) { ... }\<close> block.
\<close>

type_synonym 'a io = "world \<Rightarrow> (error + 'a) \<times> world"

definition return_io :: "'a \<Rightarrow> 'a io" where
  "return_io x = (\<lambda>w. (Inr x, w))"

definition throw_io :: "error \<Rightarrow> 'a io" where
  "throw_io e = (\<lambda>w. (Inl e, w))"

definition lift_io :: "error + 'a \<Rightarrow> 'a io" where
  "lift_io r = (\<lambda>w. (r, w))"

definition bind_io :: "'a io \<Rightarrow> ('a \<Rightarrow> 'b io) \<Rightarrow> 'b io" where
  "bind_io m f = (\<lambda>w. case m w of (Inl e, w') \<Rightarrow> (Inl e, w') | (Inr x, w') \<Rightarrow> f x w')"

definition try_catch :: "'a io \<Rightarrow> (error \<Rightarrow> 'a io) \<Rightarrow> 'a io" where
  "try_catch m h = (\<lambda>w. case m w of (Inl e, w') \<Rightarrow> h e w' | (Inr x, w') \<Rightarrow> (Inr x, w'))"

text \<open>\<^verbatim>\<open>fetch(url, init)\<close>: the request is sent, then the backend's outcome is awaited.\<close>

definition fetch :: "platform \<Rightarrow> request \<Rightarrow> response io" where
  "fetch P rq = (\<lambda>w.
     let w' = w\<lparr>requests := requests w @ [rq]\<rparr> in
     case net P rq of
       Rejected ms e \<Rightarrow> (Inl e, w')
     | Responded ms r \<Rightarrow> (Inr r, w'))"

section \<open>\<^verbatim>\<open>createAuthHeaders\<close>\<close>

definition createAuthHeaders :: "platform \<Rightarrow> (string \<times> string) list io" where
  "createAuthHeaders P = (\<lambda>w.
     case userToken w of
       None \<Rightarrow> (Inl (Error ''No authentication token available''), w)
     | Some storedToken \<Rightarrow>
         if storedToken = [] then (Inl (Error ''No authentication token available''), w)
         else (Inr
           [(''accept'', ''application/json, text/plain, */*''),
            (''content-type'', ''application/json''),
            (''Cookie'', ''token='' @ storedToken),
            (''referer'', base_url P @ ''/Leads/Marketing''),
            (''origin'', base_url P),
            (''user-agent'',
             ''Mozilla/5.0 (iPhone; CPU iPhone OS 17_0 like Mac OS X) AppleWebKit/605.1.15 (KHTML, like Gecko) MilesClient-Mobile/1.0.0''),
            (''x-requested-with'', ''XMLHttpRequest'')], w))"

section \<open>\<^verbatim>\<open>fetchTagOptions\<close>\<close>

record FilterOption =
  opt_value :: jsval
  opt_label :: jsval
  opt_color :: jsval

record TagsResponse =
  tr_options :: "FilterOption list"
  tr_hasMore :: bool
  tr_totalCount :: jsval

text \<open>
  The callback of \<^verbatim>\<open>data.data.map((tag, index) => ...)\<close>. In
  \<^verbatim>\<open>tag.Tag + '::' + (page - 1) * limit + index\<close> the product binds tighter than
  \<^verbatim>\<open>+\<close>, and \<^verbatim>\<open>+\<close> associates to the left: once the left operand is a string every
  further \<^verbatim>\<open>+\<close> is a concatenation, so the offset and the index are appended one after
  the other, each in decimal.
\<close>

definition tag_option :: "int \<Rightarrow> int \<Rightarrow> nat \<Rightarrow> jsval \<Rightarrow> error + FilterOption" where
  "tag_option page limit index tag =
     (case get_prop tag ''Tag'' of
        Inl e \<Rightarrow> Inl e
      | Inr t \<Rightarrow> Inr \<lparr>opt_value =
                       JStr (js_toString t @ ''::'' @ num_toString ((page - 1) * limit)
                             @ num_toString (int index)),
                     opt_label = t,
                     opt_color = Undefined\<rparr>)"

definition no_tags :: TagsResponse where
  "no_tags = \<lparr>tr_options = [], tr_hasMore = False, tr_totalCount = JNum 0\<rparr>"

definition tags_request :: "platform \<Rightarrow> int \<Rightarrow> int \<Rightarrow> string \<Rightarrow> (string \<times> string) list \<Rightarrow> request" where
  "tags_request P page limit searchTerm hdrs =
     \<lparr>req_method = ''GET'',
      req_url = base_url P @ ''/api/tags/get'',
      req_query = [(''page'', num_toString page), (''limit'', num_toString limit)]
                  @ (if searchTerm \<noteq> [] then [(''search'', searchTerm)] else []),
      req_headers = hdrs,
      req_payload = NoPayload\<rparr>"

text \<open>The part of the response-ok branch that runs after \<^verbatim>\<open>response.json()\<close>.\<close>

definition tags_of_data :: "int \<Rightarrow> int \<Rightarrow> jsval \<Rightarrow> error + TagsResponse" where
  "tags_of_data page limit data =
     (case get_prop data ''data'' of
        Inl e \<Rightarrow> Inl e
      | Inr rows \<Rightarrow>
          (case array_map (tag_option page limit) rows of
             Inl e \<Rightarrow> Inl e
           | Inr tagOpts \<Rightarrow>
               (case get_prop data ''totalTags'' of
                  Inl e \<Rightarrow> Inl e
                | Inr totalTags \<Rightarrow>
                    (case get_prop data ''total'' of
                       Inl e \<Rightarrow> Inl e
                     | Inr totalField \<Rightarrow>
                         Inr \<lparr>tr_options = tagOpts,
                              tr_hasMore = (int (length tagOpts) = limit),
                              tr_totalCount =
                                js_or (js_or totalTags totalField)
                                      (JNum (int (length tagOpts)))\<rparr>))))"

definition fetchTagOptions :: "platform \<Rightarrow> int \<Rightarrow> int \<Rightarrow> string \<Rightarrow> TagsResponse io" where
  "fetchTagOptions P page limit searchTerm =
     try_catch
       (bind_io (createAuthHeaders P) (\<lambda>hdrs.
        bind_io (fetch P (tags_request P page limit searchTerm hdrs)) (\<lambda>response.
          if resp_ok response then
            bind_io (lift_io (resp_json P response)) (\<lambda>data.
              lift_io (tags_of_data page limit data))
          else return_io no_tags)))
       (\<lambda>e. return_io no_tags)"

definition present :: "jsval \<Rightarrow> bool" where
  "present v = (v \<noteq> Undefined \<and> v \<noteq> JNull)"

text \<open>
  What "a successful tag fetch returning the rows \<open>rows\<close>" means for the model: a token is
  stored, the backend answers the tag request with a 2xx status and a JSON body \<open>data\<close>
  whose \<^verbatim>\<open>data\<close> property is the array \<open>rows\<close>, and no row is \<^verbatim>\<open>null\<close>.
\<close>

definition tags_answer :: "platform \<Rightarrow> int \<Rightarrow> int \<Rightarrow> string \<Rightarrow> world \<Rightarrow> response option" where
  "tags_answer P page limit searchTerm w =
     (case createAuthHeaders P w of
        (Inl e, w') \<Rightarrow> None
      | (Inr hdrs, w') \<Rightarrow>
          (case net P (tags_request P page limit searchTerm hdrs) of
             Rejected ms e \<Rightarrow> None
           | Responded ms r \<Rightarrow> Some r))"

definition successful_tag_fetch ::
  "platform \<Rightarrow> int \<Rightarrow> int \<Rightarrow> string \<Rightarrow> world \<Rightarrow> jsval \<Rightarrow> jsval list \<Rightarrow> bool" where
  "successful_tag_fetch P page limit searchTerm w data rows =
     ((case tags_answer P page limit searchTerm w of
         None \<Rightarrow> False
       | Some r \<Rightarrow> resp_ok r \<and> JSON_parse P (resp_body r) = Some data)
      \<and> get_prop data ''data'' = Inr (JArr rows)
      \<and> list_all present rows)"

section \<open>\<^verbatim>\<open>validateAuthToken\<close>\<close>

text \<open>\<^verbatim>\<open>s.split('.')\<close>: the segments between the dots, at least one.\<close>

fun split_on :: "char \<Rightarrow> string \<Rightarrow> string list" where
  "split_on c [] = [[]]"
| "split_on c (x # xs) =
     (if x = c then [] # split_on c xs
      else (case split_on c xs of [] \<Rightarrow> [[x]] | s # ss \<Rightarrow> (x # s) # ss))"

text \<open>
  \<^verbatim>\<open>JSON.parse(atob(storedToken.split('.')[1]))\<close>. A token without a dot has no
  segment 1; \<^verbatim>\<open>atob\<close> then receives \<^verbatim>\<open>undefined\<close>, which it reads as the string
  \<^verbatim>\<open>undefined\<close>.
\<close>

definition decode_payload :: "platform \<Rightarrow> string \<Rightarrow> error + jsval" where
  "decode_payload P storedToken =
     (let parts = split_on CHR ''.'' storedToken;
          segment = (if 1 < length parts then parts ! 1 else ''undefined'')
      in case atob P segment of
           None \<Rightarrow> Inl InvalidCharacterError
         | Some txt \<Rightarrow> (case JSON_parse P txt of None \<Rightarrow> Inl SyntaxError | Some v \<Rightarrow> Inr v))"

text \<open>
  \<^verbatim>\<open>currentTime > tokenExpiry\<close> with a number on the left: the right operand is converted
  to a number (\<open>None\<close> is NaN), and a comparison with NaN is false.
\<close>

fun ToNumber :: "platform \<Rightarrow> jsval \<Rightarrow> int option" where
  "ToNumber P Undefined = None"
| "ToNumber P JNull = Some 0"
| "ToNumber P (JBool b) = Some (if b then 1 else 0)"
| "ToNumber P (JNum n) = Some n"
| "ToNumber P (JStr s) = StringToNumber P s"
| "ToNumber P (JArr xs) = StringToNumber P (js_toString (JArr xs))"
| "ToNumber P (JObj kvs) = StringToNumber P (js_toString (JObj kvs))"

definition num_gt :: "platform \<Rightarrow> int \<Rightarrow> jsval \<Rightarrow> bool" where
  "num_gt P a v = (case ToNumber P v of None \<Rightarrow> False | Some b \<Rightarrow> a > b)"

definition show_toast :: "string \<Rightarrow> world \<Rightarrow> world" where
  "show_toast msg w = w\<lparr>toasts := toasts w @ [msg]\<rparr>"

definition deleteUserToken :: "world \<Rightarrow> world" where
  "deleteUserToken w = w\<lparr>userToken := None\<rparr>"

definition validateAuthToken :: "platform \<Rightarrow> bool io" where
  "validateAuthToken P =
     try_catch
       (\<lambda>w. case userToken w of
          None \<Rightarrow> (Inr False, show_toast ''Please login again to access leads'' w)
        | Some storedToken \<Rightarrow>
            if storedToken = [] then
              (Inr False, show_toast ''Please login again to access leads'' w)
            else
              (case decode_payload P storedToken of
                 Inl e \<Rightarrow> (Inl e, w)
               | Inr tokenPayload \<Rightarrow>
                   (case get_prop tokenPayload ''exp'' of
                      Inl e \<Rightarrow> (Inl e, w)
                    | Inr tokenExpiry \<Rightarrow>
                        let currentTime = now_ms P div 1000 in
                        if num_gt P currentTime tokenExpiry then
                          (Inr False,
                           deleteUserToken
                             (show_toast ''Your session has expired. Please login again.'' w))
                        else (Inr True, w))))
       (\<lambda>tokenError w.
          (Inr False,
           deleteUserToken (show_toast ''Invalid session token. Please login again.'' w)))"

section \<open>\<^verbatim>\<open>buildLeadsRequestBody\<close>\<close>

text \<open>
  The caller's arguments follow the declared interfaces. A \<^verbatim>\<open>user\<close> has an id, a role
  and, where \<^verbatim>\<open>user.permissions?.lead\<close> is there, the list of lead capabilities. The
  fields of \<^verbatim>\<open>FilterOptions\<close> that the composer guards with \<^verbatim>\<open>||\<close> or \<^verbatim>\<open>&&\<close> may be
  missing (\<open>None\<close>). A \<^verbatim>\<open>Date\<close> holds a time value in milliseconds, or none (an
  invalid date, on which \<^verbatim>\<open>toISOString\<close> throws a RangeError).
\<close>

record user =
  user_id :: string
  user_role :: string
  user_lead_permissions :: "string list option"

datatype jsdate = Date "int option"

record FilterOptions =
  f_searchTerm :: string
  f_searchBoxFilters :: "string list option"
  f_selectedAgents :: "string list option"
  f_selectedStatuses :: "string list option"
  f_selectedSources :: "string list option"
  f_selectedTags :: "string list option"
  f_dateRange :: "(jsdate option \<times> jsdate option) option"
  f_dateFor :: "string option"

record LeadRequestOptions =
  o_includeNonAssigned :: "bool option"
  o_viewAllLeads :: "bool option"

record PaginationParams =
  p_page :: int
  p_limit :: int

definition no_options :: LeadRequestOptions where
  "no_options = \<lparr>o_includeNonAssigned = None, o_viewAllLeads = None\<rparr>"

text \<open>\<^verbatim>\<open>user.permissions?.lead?.includes(c)\<close>: falsy where the list is not there.\<close>

definition lead_includes :: "user \<Rightarrow> string \<Rightarrow> bool" where
  "lead_includes u c =
     (case user_lead_permissions u of None \<Rightarrow> False | Some lead \<Rightarrow> c \<in> set lead)"

text \<open>
  The capability test of the composer and of \<^verbatim>\<open>fetchAgents\<close>: one of the lead
  capabilities \<^verbatim>\<open>view_non_assigned\<close> and \<^verbatim>\<open>view_all\<close>, or the role \<^verbatim>\<open>superAdmin\<close>.
\<close>

definition may_view_all :: "user \<Rightarrow> bool" where
  "may_view_all u =
     (lead_includes u ''view_non_assigned'' \<or> lead_includes u ''view_all''
      \<or> user_role u = ''superAdmin'')"

text \<open>
  Lines 108 to 134: the agent list and the computed \<^verbatim>\<open>requestOptions\<close>, by the first
  branch that applies.
\<close>

definition scope_of :: "user \<Rightarrow> FilterOptions \<Rightarrow> string list \<times> LeadRequestOptions" where
  "scope_of u filters =
     (case f_selectedAgents filters of
        Some (a # as) \<Rightarrow>
          (a # as,
           if ''non-assigned'' \<in> set (a # as) then
             \<lparr>o_includeNonAssigned = Some True,
              o_viewAllLeads = (if may_view_all u then Some True else None)\<rparr>
           else no_options)
      | _ \<Rightarrow>
          if user_role u = ''superAdmin'' then
            ([], \<lparr>o_includeNonAssigned = None, o_viewAllLeads = Some True\<rparr>)
          else ([user_id u], no_options))"

definition date_strings :: "platform \<Rightarrow> FilterOptions \<Rightarrow> error + string list" where
  "date_strings P filters =
     (case f_dateRange filters of
        None \<Rightarrow> Inr []
      | Some (d0, d1) \<Rightarrow>
          if d0 = None \<and> d1 = None then Inr []
          else mapE (\<lambda>i d. case d of
                              Date None \<Rightarrow> Inl RangeError
                            | Date (Some ms) \<Rightarrow> Inr (toISOString P ms))
                 0 (map the (filter (\<lambda>d. d \<noteq> None) [d0, d1])))"

text \<open>The later spread wins where it has the key: \<^verbatim>\<open>{...requestOptions, ...options}\<close>.\<close>

definition spread :: "bool option \<Rightarrow> bool option \<Rightarrow> bool option" where
  "spread computed given = (case given of None \<Rightarrow> computed | Some b \<Rightarrow> Some b)"

definition buildLeadsRequestBody ::
  "platform \<Rightarrow> user \<Rightarrow> FilterOptions \<Rightarrow> string \<Rightarrow> PaginationParams \<Rightarrow> LeadRequestOptions
   \<Rightarrow> error + LeadsRequestBody" where
  "buildLeadsRequestBody P u filters searchText pagination opts =
     (let (selectedAgents, requestOptions) = scope_of u filters in
      case date_strings P filters of
        Inl e \<Rightarrow> Inl e
      | Inr dates \<Rightarrow>
          Inr \<lparr>b_searchTerm = trim P searchText,
               b_selectedAgents = selectedAgents,
               b_selectedStatuses = (case f_selectedStatuses filters of None \<Rightarrow> [] | Some xs \<Rightarrow> xs),
               b_selectedSources = (case f_selectedSources filters of None \<Rightarrow> [] | Some xs \<Rightarrow> xs),
               b_selectedTags = (case f_selectedTags filters of None \<Rightarrow> [] | Some xs \<Rightarrow> xs),
               b_date = dates,
               b_dateFor = (case f_dateFor filters of
                              None \<Rightarrow> ''LeadIntroduction''
                            | Some d \<Rightarrow> if d = [] then ''LeadIntroduction'' else d),
               b_searchBoxFilters =
                 (case f_searchBoxFilters filters of None \<Rightarrow> [''LeadInfo''] | Some xs \<Rightarrow> xs),
               b_page = p_page pagination + 1,
               b_limit = num_toString (p_limit pagination),
               b_userid = user_id u,
               b_includeNonAssigned =
                 spread (o_includeNonAssigned requestOptions) (o_includeNonAssigned opts),
               b_viewAllLeads = spread (o_viewAllLeads requestOptions) (o_viewAllLeads opts)\<rparr>)"

section \<open>\<^verbatim>\<open>fetchLeads\<close>\<close>

record LeadsResponse =
  lr_data :: "jsval list"
  lr_totalLeads :: jsval

text \<open>
  What follows \<^verbatim>\<open>response.json()\<close>: \<^verbatim>\<open>Object.keys(data)\<close> and the property reads
  throw a TypeError on \<^verbatim>\<open>null\<close>.
\<close>

definition leads_of_data :: "jsval \<Rightarrow> error + LeadsResponse" where
  "leads_of_data data =
     (case get_prop data ''data'' of
        Inl e \<Rightarrow> Inl e
      | Inr d \<Rightarrow>
          (case get_prop data ''totalLeads'' of
             Inl e \<Rightarrow> Inl e
           | Inr t \<Rightarrow>
               Inr \<lparr>lr_data = (case d of JArr xs \<Rightarrow> xs | _ \<Rightarrow> []),
                    lr_totalLeads = js_or t (JNum 0)\<rparr>))"

definition leads_request :: "platform \<Rightarrow> (string \<times> string) list \<Rightarrow> LeadsRequestBody \<Rightarrow> request" where
  "leads_request P hdrs requestBody =
     \<lparr>req_method = ''POST'',
      req_url = base_url P @ ''/api/Lead/get'',
      req_query = [],
      req_headers = hdrs,
      req_payload = LeadsPayload requestBody\<rparr>"

definition fetchLeads ::
  "platform \<Rightarrow> user option \<Rightarrow> FilterOptions \<Rightarrow> string \<Rightarrow> PaginationParams \<Rightarrow> LeadRequestOptions
   \<Rightarrow> LeadsResponse io" where
  "fetchLeads P usr filters searchText pagination opts =
     (case usr of
        None \<Rightarrow> throw_io (Error ''User not available'')
      | Some u \<Rightarrow>
          if user_id u = [] then throw_io (Error ''User not available'')
          else
            bind_io (validateAuthToken P) (\<lambda>valid.
              if \<not> valid then throw_io (Error ''Authentication failed'')
              else
                bind_io (createAuthHeaders P) (\<lambda>hdrs.
                bind_io (lift_io (buildLeadsRequestBody P u filters searchText pagination opts))
                  (\<lambda>requestBody.
                bind_io (fetch P (leads_request P hdrs requestBody)) (\<lambda>response.
                  if \<not> resp_ok response then
                    throw_io (Error (''Failed to fetch leads: ''
                                     @ num_toString (int (resp_status response))))
                  else
                    bind_io (lift_io (resp_json P response)) (\<lambda>data.
                      lift_io (leads_of_data data)))))))"

section \<open>\<^verbatim>\<open>fetchStatusOptions\<close> and \<^verbatim>\<open>fetchSourceOptions\<close>\<close>

definition get_request :: "platform \<Rightarrow> string \<Rightarrow> (string \<times> string) list \<Rightarrow> request" where
  "get_request P path hdrs =
     \<lparr>req_method = ''GET'',
      req_url = base_url P @ path,
      req_query = [],
      req_headers = hdrs,
      req_payload = NoPayload\<rparr>"

definition status_option :: "nat \<Rightarrow> jsval \<Rightarrow> error + FilterOption" where
  "status_option index status =
     (case get_prop status ''_id'' of
        Inl e \<Rightarrow> Inl e
      | Inr v \<Rightarrow>
          (case get_prop status ''Status'' of
             Inl e \<Rightarrow> Inl e
           | Inr l \<Rightarrow>
               (case get_prop status ''color'' of
                  Inl e \<Rightarrow> Inl e
                | Inr c \<Rightarrow> Inr \<lparr>opt_value = v, opt_label = l, opt_color = c\<rparr>)))"

definition source_option :: "nat \<Rightarrow> jsval \<Rightarrow> error + FilterOption" where
  "source_option index source =
     (case get_prop source ''_id'' of
        Inl e \<Rightarrow> Inl e
      | Inr v \<Rightarrow>
          (case get_prop source ''Source'' of
             Inl e \<Rightarrow> Inl e
           | Inr l \<Rightarrow> Inr \<lparr>opt_value = v, opt_label = l, opt_color = Undefined\<rparr>))"

definition fetchStatusOptions :: "platform \<Rightarrow> FilterOption list io" where
  "fetchStatusOptions P =
     try_catch
       (bind_io (createAuthHeaders P) (\<lambda>hdrs.
        bind_io (fetch P (get_request P ''/api/Status/get'' hdrs)) (\<lambda>response.
          if resp_ok response then
            bind_io (lift_io (resp_json P response)) (\<lambda>data.
              lift_io (case get_prop data ''data'' of
                         Inl e \<Rightarrow> Inl e
                       | Inr rows \<Rightarrow> array_map status_option rows))
          else return_io [])))
       (\<lambda>e. return_io [])"

definition fetchSourceOptions :: "platform \<Rightarrow> FilterOption list io" where
  "fetchSourceOptions P =
     try_catch
       (bind_io (createAuthHeaders P) (\<lambda>hdrs.
        bind_io (fetch P (get_request P ''/api/Source/get'' hdrs)) (\<lambda>response.
          if resp_ok response then
            bind_io (lift_io (resp_json P response)) (\<lambda>data.
              lift_io (case get_prop data ''data'' of
                         Inl e \<Rightarrow> Inl e
                       | Inr rows \<Rightarrow> array_map source_option rows))
          else return_io [])))
       (\<lambda>e. return_io [])"

section \<open>\<^verbatim>\<open>transformAgentsDataToTreeSelect\<close> and \<^verbatim>\<open>fetchAgents\<close>\<close>

text \<open>
  The transform calls itself on the singleton array of a subordinate that has
  subordinates of its own. A JSON value is a finite tree, so the recursion ends: the
  subordinate is two levels below the array it was found in.
\<close>

lemma mapE_cong [fundef_cong]:
  "xs = ys \<Longrightarrow> k = k' \<Longrightarrow> (\<And>i x. x \<in> set ys \<Longrightarrow> f i x = g i x)
   \<Longrightarrow> mapE f k xs = mapE g k' ys"
proof (induction ys arbitrary: xs k k')
  case Nil
  then show ?case by simp
next
  case (Cons y ys)
  then show ?case by (auto split: sum.splits)
qed

lemma array_map_cong [fundef_cong]:
  "v = v' \<Longrightarrow> (\<And>i x xs. v' = JArr xs \<Longrightarrow> x \<in> set xs \<Longrightarrow> f i x = g i x)
   \<Longrightarrow> array_map f v = array_map g v'"
  by (auto simp: array_map_def split: jsval.splits intro: mapE_cong)

lemma size_map_of:
  "map_of kvs k = Some v \<Longrightarrow> size v < size_list (size_prod (\<lambda>x. 0) size) kvs"
  by (induction kvs) (auto split: if_splits)

lemma size_get_prop_array: "get_prop x k = Inr (JArr ys) \<Longrightarrow> size (JArr ys) < size x"
proof (cases x)
  case (JObj kvs)
  assume "get_prop x k = Inr (JArr ys)"
  with JObj have "map_of kvs k = Some (JArr ys)" by (auto split: option.splits)
  from size_map_of [OF this] JObj show ?thesis by simp
qed auto

lemma size_element: "x \<in> set xs \<Longrightarrow> size x < size (JArr xs)"
  using size_list_estimation' [of x xs "size x" size] by simp

text \<open>
  The object literal built for a subordinate. \<open>nested\<close> is the value of
  \<^verbatim>\<open>transformAgentsDataToTreeSelect([subordinate])\<close>, used only where
  \<^verbatim>\<open>subordinate.subordinates\<close> is truthy; \<^verbatim>\<open>[0].children\<close> of it throws a TypeError
  when there is no element 0.
\<close>

definition subordinate_node :: "jsval \<Rightarrow> error + jsval list \<Rightarrow> error + jsval" where
  "subordinate_node subordinate nested =
     (case get_prop subordinate ''_id'' of Inl e \<Rightarrow> Inl e | Inr sid \<Rightarrow>
      case get_prop subordinate ''username'' of Inl e \<Rightarrow> Inl e | Inr sname \<Rightarrow>
      case get_prop subordinate ''email'' of Inl e \<Rightarrow> Inl e | Inr semail \<Rightarrow>
      case get_prop subordinate ''personalemail'' of Inl e \<Rightarrow> Inl e | Inr spersonal \<Rightarrow>
      case get_prop subordinate ''isVerified'' of Inl e \<Rightarrow> Inl e | Inr sverified \<Rightarrow>
      case get_prop subordinate ''subordinates'' of Inl e \<Rightarrow> Inl e | Inr subsubs \<Rightarrow>
      case (if truthy subsubs then
              (case nested of
                 Inl e \<Rightarrow> Inl e
               | Inr nodes \<Rightarrow>
                   get_prop (case nodes of [] \<Rightarrow> Undefined | n # ns \<Rightarrow> n) ''children'')
            else Inr Undefined) of
        Inl e \<Rightarrow> Inl e
      | Inr kids \<Rightarrow>
          Inr (JObj [(''value'', sid), (''title'', sname), (''label'', sname),
                     (''email'', semail), (''personalEmail'', spersonal),
                     (''isVerified'', sverified), (''children'', kids)]))"

text \<open>
  The object literal built for a row of \<^verbatim>\<open>data\<close>. \<open>sub_nodes\<close> stands for
  \<^verbatim>\<open>userData.subordinates.map(...)\<close>, evaluated only where \<^verbatim>\<open>userData.subordinates\<close>
  is truthy.
\<close>

definition user_node :: "jsval \<Rightarrow> (jsval \<Rightarrow> error + jsval list) \<Rightarrow> error + jsval" where
  "user_node userData sub_nodes =
     (case get_prop userData ''_id'' of Inl e \<Rightarrow> Inl e | Inr uid \<Rightarrow>
      case get_prop userData ''username'' of Inl e \<Rightarrow> Inl e | Inr uname \<Rightarrow>
      case get_prop userData ''subordinates'' of Inl e \<Rightarrow> Inl e | Inr subs \<Rightarrow>
      case (if truthy subs then
              (case sub_nodes subs of Inl e \<Rightarrow> Inl e | Inr nodes \<Rightarrow> Inr (JArr nodes))
            else Inr Undefined) of
        Inl e \<Rightarrow> Inl e
      | Inr children \<Rightarrow>
          Inr (JObj [(''value'', uid), (''title'', uname), (''label'', uname),
                     (''children'', children)]))"

lemma user_node_cong [fundef_cong]:
  "userData = userData' \<Longrightarrow>
   (\<And>subs. get_prop userData' ''subordinates'' = Inr subs \<Longrightarrow> truthy subs \<Longrightarrow> f subs = g subs)
   \<Longrightarrow> user_node userData f = user_node userData' g"
  by (auto simp: user_node_def split: sum.splits)

function transformAgentsDataToTreeSelect :: "jsval \<Rightarrow> error + jsval list" where
  "transformAgentsDataToTreeSelect data =
     (if \<not> truthy data \<or> \<not> isArray data then Inr []
      else array_map (\<lambda>i userData.
             user_node userData
               (array_map (\<lambda>j subordinate.
                  subordinate_node subordinate
                    (transformAgentsDataToTreeSelect (JArr [subordinate]))))) data)"
  by pat_completeness auto
termination
proof (relation "measure size", goal_cases)
  case 1
  show ?case by simp
next
  case (2 data i userData xs subs j subordinate ys)
  from \<open>subordinate \<in> set ys\<close> have "size subordinate < size (JArr ys)"
    by (rule size_element)
  moreover from \<open>get_prop userData ''subordinates'' = Inr subs\<close> \<open>subs = JArr ys\<close>
  have "get_prop userData ''subordinates'' = Inr (JArr ys)"
    by simp
  then have "size (JArr ys) < size userData"
    by (rule size_get_prop_array)
  moreover from \<open>userData \<in> set xs\<close> have "size userData < size (JArr xs)"
    by (rule size_element)
  ultimately show ?case using \<open>data = JArr xs\<close> by simp
qed

declare transformAgentsDataToTreeSelect.simps [simp del]

definition non_assigned_node :: jsval where
  "non_assigned_node =
     JObj [(''value'', JStr ''non-assigned''), (''title'', JStr ''Non-Assigned Leads''),
           (''label'', JStr ''Non-Assigned Leads'')]"

definition fetchAgents :: "platform \<Rightarrow> user option \<Rightarrow> jsval list io" where
  "fetchAgents P usr =
     (case usr of
        None \<Rightarrow> return_io []
      | Some u \<Rightarrow>
          if user_id u = [] then return_io []
          else
            try_catch
              (bind_io (createAuthHeaders P) (\<lambda>hdrs.
               bind_io (fetch P (get_request P ''/api/staff/get?preserveHierarchy=true'' hdrs))
                 (\<lambda>response.
                 if resp_ok response then
                   bind_io (lift_io (resp_json P response)) (\<lambda>data.
                     lift_io
                       (case get_prop data ''data'' of
                          Inl e \<Rightarrow> Inl e
                        | Inr rows \<Rightarrow>
                            (case transformAgentsDataToTreeSelect rows of
                               Inl e \<Rightarrow> Inl e
                             | Inr treeData \<Rightarrow>
                                 Inr (if may_view_all u then non_assigned_node # treeData
                                      else treeData))))
                 else return_io [])))
              (\<lambda>e. return_io []))"

section \<open>\<^verbatim>\<open>fetchCampaignLeads\<close> and \<^verbatim>\<open>fetchCampaignsWithCounts\<close>\<close>
















section \<open>A concrete platform for worked examples\<close>

text \<open>
  The examples below run the services against a small backend: the clock stands at
  1700000000 seconds, \<open>valid_token\<close> expires one second later, \<open>expired_token\<close> expired
  one second earlier, and \<^verbatim>\<open>atob\<close> and \<^verbatim>\<open>JSON.parse\<close> are tabulated on the strings that
  occur.
\<close>

definition valid_token :: string where
  "valid_token = ''eyJhbGciOiJIUzI1NiJ9.eyJleHAiOjE3MDAwMDAwMDF9.c2ln''"

definition expired_token :: string where
  "expired_token = ''eyJhbGciOiJIUzI1NiJ9.eyJleHAiOjE2OTk5OTk5OTl9.c2ln''"

definition demo_atob :: "string \<Rightarrow> string option" where
  \<open>demo_atob s =
     (if s = ''eyJleHAiOjE3MDAwMDAwMDF9'' then Some ''{"exp":1700000001}''
      else if s = ''eyJleHAiOjE2OTk5OTk5OTl9'' then Some ''{"exp":1699999999}''
      else None)\<close>

definition tags_page1 :: string where
  \<open>tags_page1 = ''{"data":[{"Tag":"A"},{"Tag":"B"}],"totalTags":4}''\<close>

definition tags_page2 :: string where
  \<open>tags_page2 = ''{"data":[{"Tag":"A"},{"Tag":"C"}],"totalTags":4}''\<close>

definition tags_page3 :: string where
  \<open>tags_page3 = ''{"data":[],"totalTags":4}''\<close>

definition tags_zero_total :: string where
  \<open>tags_zero_total = ''{"data":[{"Tag":"A"}],"totalTags":0}''\<close>

definition leads_page :: string where
  \<open>leads_page = ''{"data":[{"_id":"L1"}],"totalLeads":1}''\<close>

definition leads_text_total :: string where
  \<open>leads_text_total = ''{"data":[],"totalLeads":"12"}''\<close>

definition demo_JSON_parse :: "string \<Rightarrow> jsval option" where
  \<open>demo_JSON_parse s =
     (if s = ''{"exp":1700000001}'' then Some (JObj [(''exp'', JNum 1700000001)])
      else if s = ''{"exp":1699999999}'' then Some (JObj [(''exp'', JNum 1699999999)])
      else if s = tags_page1 then
        Some (JObj [(''data'', JArr [JObj [(''Tag'', JStr ''A'')], JObj [(''Tag'', JStr ''B'')]]),
                    (''totalTags'', JNum 4)])
      else if s = tags_page2 then
        Some (JObj [(''data'', JArr [JObj [(''Tag'', JStr ''A'')], JObj [(''Tag'', JStr ''C'')]]),
                    (''totalTags'', JNum 4)])
      else if s = tags_page3 then
        Some (JObj [(''data'', JArr []), (''totalTags'', JNum 4)])
      else if s = tags_zero_total then
        Some (JObj [(''data'', JArr [JObj [(''Tag'', JStr ''A'')]]), (''totalTags'', JNum 0)])
      else if s = leads_page then
        Some (JObj [(''data'', JArr [JObj [(''_id'', JStr ''L1'')]]), (''totalLeads'', JNum 1)])
      else if s = leads_text_total then
        Some (JObj [(''data'', JArr []), (''totalLeads'', JStr ''12'')])
      else if s = ''null'' then Some JNull
      else None)\<close>

text \<open>
  The backend: three pages of tags for \<^verbatim>\<open>limit=2\<close>, a tag page with a zero total for
  \<^verbatim>\<open>limit=5\<close>, a leads page (with a total sent as text when the search term is
  \<^verbatim>\<open>text\<close>, and the body \<^verbatim>\<open>null\<close> when it is \<^verbatim>\<open>null\<close>), and 404 for everything else.
\<close>

definition demo_net :: "request \<Rightarrow> net_outcome" where
  "demo_net rq =
     (if req_url rq = ''https://crm.example/api/tags/get'' then
        (if req_query rq = [(''page'', ''1''), (''limit'', ''2'')] then
           Responded 120 \<lparr>resp_status = 200, resp_body = tags_page1\<rparr>
         else if req_query rq = [(''page'', ''2''), (''limit'', ''2'')] then
           Responded 120 \<lparr>resp_status = 200, resp_body = tags_page2\<rparr>
         else if req_query rq = [(''page'', ''3''), (''limit'', ''2'')] then
           Responded 120 \<lparr>resp_status = 200, resp_body = tags_page3\<rparr>
         else if req_query rq = [(''page'', ''1''), (''limit'', ''5'')] then
           Responded 120 \<lparr>resp_status = 200, resp_body = tags_zero_total\<rparr>
         else Responded 80 \<lparr>resp_status = 500, resp_body = ''Internal Server Error''\<rparr>)
      else if req_url rq = ''https://crm.example/api/Lead/get'' then
        (case req_payload rq of
           LeadsPayload b \<Rightarrow>
             if b_searchTerm b = ''text'' then
               Responded 150 \<lparr>resp_status = 200, resp_body = leads_text_total\<rparr>
             else if b_searchTerm b = ''null'' then
               Responded 150 \<lparr>resp_status = 200, resp_body = ''null''\<rparr>
             else Responded 150 \<lparr>resp_status = 200, resp_body = leads_page\<rparr>
         | _ \<Rightarrow> Responded 20 \<lparr>resp_status = 400, resp_body = ''Bad Request''\<rparr>)
      else Responded 30 \<lparr>resp_status = 404, resp_body = ''Not Found''\<rparr>)"

text \<open>On the ASCII search texts of the examples \<^verbatim>\<open>trim\<close> strips these six characters.\<close>

definition is_space :: "char \<Rightarrow> bool" where
  "is_space c = (c \<in> set [CHR '' '', CHR 0x09, CHR 0x0A, CHR 0x0B, CHR 0x0C, CHR 0x0D])"

definition ascii_trim :: "string \<Rightarrow> string" where
  "ascii_trim s = rev (dropWhile is_space (rev (dropWhile is_space s)))"

definition demo_platform :: platform where
  "demo_platform =
     \<lparr>base_url = ''https://crm.example'',
      now_ms = 1700000000123,
      net = demo_net,
      atob = demo_atob,
      JSON_parse = demo_JSON_parse,
      StringToNumber = (\<lambda>s. None),
      toISOString = (\<lambda>ms. ''2023-11-14T22:13:20.123Z''),
      trim = ascii_trim\<rparr>"

definition logged_in :: world where
  "logged_in = \<lparr>userToken = Some valid_token, toasts = [], requests = []\<rparr>"

definition session_expired :: world where
  "session_expired = \<lparr>userToken = Some expired_token, toasts = [], requests = []\<rparr>"

definition logged_out :: world where
  "logged_out = \<lparr>userToken = None, toasts = [], requests = []\<rparr>"

section \<open>Failure of a best-effort fetch\<close>

text \<open>
  The three ways a fetch of the request \<open>mk hdrs\<close> fails before a 2xx response is read:
  no token to build the headers \<open>hdrs\<close> from, a transport failure, a response whose status
  is not 2xx.
\<close>

definition fetch_fails :: "platform \<Rightarrow> world \<Rightarrow> ((string \<times> string) list \<Rightarrow> request) \<Rightarrow> bool" where
  "fetch_fails P w mk =
     (case createAuthHeaders P w of
        (Inl e, w') \<Rightarrow> True
      | (Inr hdrs, w') \<Rightarrow>
          (case net P (mk hdrs) of
             Rejected ms e \<Rightarrow> True
           | Responded ms r \<Rightarrow> \<not> resp_ok r))"

section \<open>The response a leads fetch reads\<close>

text \<open>
  \<open>leads_answer\<close> is the response \<^verbatim>\<open>fetchLeads\<close> receives when it gets as far as the
  network: the user has an id, the session validates, the headers and the body are built,
  and the backend answers the request.
\<close>

definition leads_answer ::
  "platform \<Rightarrow> user option \<Rightarrow> FilterOptions \<Rightarrow> string \<Rightarrow> PaginationParams \<Rightarrow> LeadRequestOptions
   \<Rightarrow> world \<Rightarrow> response option" where
  "leads_answer P usr filters searchText pagination opts w =
     (case usr of
        None \<Rightarrow> None
      | Some u \<Rightarrow>
          if user_id u = [] then None
          else
            (case validateAuthToken P w of
               (Inr True, w1) \<Rightarrow>
                 (case createAuthHeaders P w1 of
                    (Inr hdrs, w2) \<Rightarrow>
                      (case buildLeadsRequestBody P u filters searchText pagination opts of
                         Inr requestBody \<Rightarrow>
                           (case net P (leads_request P hdrs requestBody) of
                              Responded ms r \<Rightarrow> Some r
                            | Rejected ms e \<Rightarrow> None)
                       | Inl e \<Rightarrow> None)
                  | (Inl e, w2) \<Rightarrow> None)
             | (Inr False, w1) \<Rightarrow> None
             | (Inl e, w1) \<Rightarrow> None))"

fun is_number :: "jsval \<Rightarrow> bool" where
  "is_number (JNum n) = True"
| "is_number v = False"

section \<open>Agent rows and the nodes that mirror them\<close>

text \<open>
  A row the transform accepts: an object (anything but \<^verbatim>\<open>null\<close> and \<^verbatim>\<open>undefined\<close>)
  whose \<^verbatim>\<open>subordinates\<close> is either falsy or an array of such rows. On any other row the
  transform throws a TypeError.
\<close>

function wf_row :: "jsval \<Rightarrow> bool" where
  "wf_row row =
     (present row \<and>
      (case get_prop row ''subordinates'' of
         Inl e \<Rightarrow> False
       | Inr subs \<Rightarrow>
           (case subs of JArr rows \<Rightarrow> list_all wf_row rows | _ \<Rightarrow> \<not> truthy subs)))"
  by pat_completeness auto
termination
proof (relation "measure size", goal_cases)
  case 1
  show ?case by simp
next
  case (2 row subs rows x)
  from \<open>x \<in> set rows\<close> have "size x < size (JArr rows)"
    by (rule size_element)
  moreover from \<open>get_prop row ''subordinates'' = Inr subs\<close> \<open>subs = JArr rows\<close>
  have "get_prop row ''subordinates'' = Inr (JArr rows)"
    by simp
  then have "size (JArr rows) < size row"
    by (rule size_get_prop_array)
  ultimately show ?case by simp
qed

declare wf_row.simps [simp del]

lemma list_all2_cong [fundef_cong]:
  "xs = xs' \<Longrightarrow> ys = ys' \<Longrightarrow> (\<And>x y. x \<in> set xs' \<Longrightarrow> y \<in> set ys' \<Longrightarrow> R x y = R' x y)
   \<Longrightarrow> list_all2 R xs ys = list_all2 R' xs' ys'"
  by (auto simp: list_all2_conv_all_nth)

text \<open>
  A node mirrors a row when its \<^verbatim>\<open>value\<close> is the row's \<^verbatim>\<open>_id\<close>, its \<^verbatim>\<open>title\<close> and
  \<^verbatim>\<open>label\<close> are the row's \<^verbatim>\<open>username\<close>, and its \<^verbatim>\<open>children\<close> follow the row's
  \<^verbatim>\<open>subordinates\<close>: for an array of subordinates an array of children of the same
  length that mirror them one by one, at every depth, and for no array of subordinates
  the value \<^verbatim>\<open>undefined\<close>.
\<close>

function mirrors :: "jsval \<Rightarrow> jsval \<Rightarrow> bool" where
  "mirrors row node =
     (get_prop node ''value'' = get_prop row ''_id'' \<and>
      get_prop node ''title'' = get_prop row ''username'' \<and>
      get_prop node ''label'' = get_prop row ''username'' \<and>
      (case get_prop row ''subordinates'' of
         Inl e \<Rightarrow> False
       | Inr subs \<Rightarrow>
           (case subs of
              JArr rows \<Rightarrow>
                (case get_prop node ''children'' of
                   Inl e \<Rightarrow> False
                 | Inr kids \<Rightarrow>
                     (case kids of JArr nodes \<Rightarrow> list_all2 mirrors rows nodes | _ \<Rightarrow> False))
            | _ \<Rightarrow> get_prop node ''children'' = Inr Undefined)))"
  by pat_completeness auto
termination
proof (relation "measure (\<lambda>(row, node). size row)", goal_cases)
  case 1
  show ?case by simp
next
  case (2 row node subs rows kids nodes x y)
  from \<open>x \<in> set rows\<close> have "size x < size (JArr rows)"
    by (rule size_element)
  moreover from \<open>get_prop row ''subordinates'' = Inr subs\<close> \<open>subs = JArr rows\<close>
  have "get_prop row ''subordinates'' = Inr (JArr rows)"
    by simp
  then have "size (JArr rows) < size row"
    by (rule size_get_prop_array)
  ultimately show ?case by simp
qed

declare mirrors.simps [simp del]

text \<open>
  A staff hierarchy of two levels below the root (root, subordinate, subordinate of the
  subordinate) beside an agent without a \<^verbatim>\<open>subordinates\<close> field.
\<close>

definition staff_rows :: "jsval list" where
  "staff_rows =
     [JObj [(''_id'', JStr ''r''), (''username'', JStr ''Root''),
            (''subordinates'',
             JArr [JObj [(''_id'', JStr ''s1''), (''username'', JStr ''Sub1''),
                         (''email'', JStr ''sub1@crm.example''),
                         (''subordinates'',
                          JArr [JObj [(''_id'', JStr ''s2''), (''username'', JStr ''Sub2'')]])]])],
      JObj [(''_id'', JStr ''a''), (''username'', JStr ''Alone'')]]"

section \<open>Reading a decimal numeral\<close>

text \<open>
  The inverse of the decimal rendering, used to say what the string sent as \<^verbatim>\<open>limit\<close>
  denotes.
\<close>

definition is_digit :: "char \<Rightarrow> bool" where
  "is_digit c = (c \<in> set ''0123456789'')"

definition digit_value :: "char \<Rightarrow> nat" where
  "digit_value c = of_char c - 48"

definition read_digits :: "string \<Rightarrow> nat" where
  "read_digits s = foldl (\<lambda>a c. 10 * a + digit_value c) 0 s"

definition read_decimal :: "string \<Rightarrow> int" where
  "read_decimal s =
     (case s of
        [] \<Rightarrow> 0
      | c # ds \<Rightarrow> if c = CHR ''-'' then - int (read_digits ds) else int (read_digits s))"

section \<open>Tag pages: synthesized values, \<^verbatim>\<open>hasMore\<close>, \<^verbatim>\<open>totalCount\<close>\<close>

lemma get_prop_present: "present v \<Longrightarrow> \<exists>t. get_prop v k = Inr t"
  by (cases v) (auto simp: present_def)

lemma mapE_tag_option:
  "list_all present rows \<Longrightarrow>
   \<exists>opts. mapE (tag_option page limit) k rows = Inr opts \<and> length opts = length rows \<and>
     (\<forall>i<length rows. \<exists>t. get_prop (rows ! i) ''Tag'' = Inr t \<and>
        opts ! i = \<lparr>opt_value = JStr (js_toString t @ ''::'' @ num_toString ((page - 1) * limit)
                                     @ num_toString (int (k + i))),
                   opt_label = t, opt_color = Undefined\<rparr>)"
proof (induction rows arbitrary: k)
  case Nil
  then show ?case by simp
next
  case (Cons row rows)
  from Cons.prems have pr: "present row" and rest: "list_all present rows" by simp_all
  from get_prop_present [OF pr] obtain t where t: "get_prop row ''Tag'' = Inr t" by blast
  from Cons.IH [OF rest, of "Suc k"] obtain opts where
    o1: "mapE (tag_option page limit) (Suc k) rows = Inr opts" and
    o2: "length opts = length rows" and
    o3: "\<forall>i<length rows. \<exists>t. get_prop (rows ! i) ''Tag'' = Inr t \<and>
        opts ! i = \<lparr>opt_value = JStr (js_toString t @ ''::'' @ num_toString ((page - 1) * limit)
                                     @ num_toString (int (Suc k + i))),
                   opt_label = t, opt_color = Undefined\<rparr>" by blast
  let ?o = "\<lparr>opt_value = JStr (js_toString t @ ''::'' @ num_toString ((page - 1) * limit)
                                     @ num_toString (int k)),
                   opt_label = t, opt_color = Undefined\<rparr>"
  have m: "mapE (tag_option page limit) k (row # rows) = Inr (?o # opts)"
    using t o1 by (simp add: tag_option_def)
  have "\<exists>t. get_prop ((row # rows) ! i) ''Tag'' = Inr t \<and>
        (?o # opts) ! i = \<lparr>opt_value = JStr (js_toString t @ ''::''
                                              @ num_toString ((page - 1) * limit)
                                              @ num_toString (int (k + i))),
                   opt_label = t, opt_color = Undefined\<rparr>"
    if i: "i < length (row # rows)" for i
  proof (cases i)
    case 0
    then show ?thesis using t by simp
  next
    case (Suc j)
    with i have "j < length rows" by simp
    with o3 Suc show ?thesis by simp
  qed
  with m o2 show ?case by simp
qed

lemma tags_of_data_success:
  assumes "get_prop data ''data'' = Inr (JArr rows)" and "list_all present rows"
  shows "\<exists>opts totalTags totalField.
           mapE (tag_option page limit) 0 rows = Inr opts \<and>
           get_prop data ''totalTags'' = Inr totalTags \<and>
           get_prop data ''total'' = Inr totalField \<and>
           tags_of_data page limit data =
             Inr \<lparr>tr_options = opts, tr_hasMore = (int (length opts) = limit),
                  tr_totalCount = js_or (js_or totalTags totalField) (JNum (int (length opts)))\<rparr>"
proof -
  from mapE_tag_option [OF assms(2), of page limit 0] obtain opts where
    o: "mapE (tag_option page limit) 0 rows = Inr opts" by blast
  from assms(1) have p: "present data" by (cases data) (auto simp: present_def)
  from get_prop_present [OF p] obtain a where a: "get_prop data ''totalTags'' = Inr a" by blast
  from get_prop_present [OF p] obtain b where b: "get_prop data ''total'' = Inr b" by blast
  show ?thesis using o a b assms(1) by (simp add: tags_of_data_def array_map_def)
qed

lemma fetchTagOptions_success:
  assumes "successful_tag_fetch P page limit searchTerm w data rows"
  shows "\<exists>opts totalTags totalField.
           mapE (tag_option page limit) 0 rows = Inr opts \<and>
           get_prop data ''totalTags'' = Inr totalTags \<and>
           get_prop data ''total'' = Inr totalField \<and>
           fst (fetchTagOptions P page limit searchTerm w) =
             Inr \<lparr>tr_options = opts, tr_hasMore = (int (length opts) = limit),
                  tr_totalCount = js_or (js_or totalTags totalField) (JNum (int (length opts)))\<rparr>"
proof -
  from assms obtain r where
    a: "tags_answer P page limit searchTerm w = Some r" and
    ok: "resp_ok r" and js: "JSON_parse P (resp_body r) = Some data" and
    d: "get_prop data ''data'' = Inr (JArr rows)" and pr: "list_all present rows"
    by (auto simp: successful_tag_fetch_def split: option.splits)
  from a obtain hdrs w' ms where
    h: "createAuthHeaders P w = (Inr hdrs, w')" and
    n: "net P (tags_request P page limit searchTerm hdrs) = Responded ms r"
    by (auto simp: tags_answer_def split: prod.splits sum.splits net_outcome.splits)
  from tags_of_data_success [OF d pr, of page limit] obtain opts totalTags totalField where
    m: "mapE (tag_option page limit) 0 rows = Inr opts" and
    g1: "get_prop data ''totalTags'' = Inr totalTags" and
    g2: "get_prop data ''total'' = Inr totalField" and
    t: "tags_of_data page limit data =
             Inr \<lparr>tr_options = opts, tr_hasMore = (int (length opts) = limit),
                  tr_totalCount = js_or (js_or totalTags totalField) (JNum (int (length opts)))\<rparr>"
    by blast
  have "fst (fetchTagOptions P page limit searchTerm w) = tags_of_data page limit data"
    using h n ok js t
    by (simp add: fetchTagOptions_def try_catch_def bind_io_def fetch_def lift_io_def
        return_io_def resp_json_def Let_def)
  with m g1 g2 t show ?thesis by simp
qed

text \<open>
  C6. On every successful tag fetch \<^verbatim>\<open>hasMore\<close> is true if and only if the number of
  rows returned equals the requested limit: a shorter page gives false, a full page gives
  true whatever total the backend declares.
\<close>

theorem hasMore_iff_full_page:
  assumes "successful_tag_fetch P page limit searchTerm w data rows"
  shows "\<exists>res. fst (fetchTagOptions P page limit searchTerm w) = Inr res \<and>
           (tr_hasMore res \<longleftrightarrow> int (length rows) = limit)"
proof -
  from assms have pr: "list_all present rows"
    by (simp add: successful_tag_fetch_def)
  from fetchTagOptions_success [OF assms] obtain opts totalTags totalField where
    m: "mapE (tag_option page limit) 0 rows = Inr opts" and
    f: "fst (fetchTagOptions P page limit searchTerm w) =
          Inr \<lparr>tr_options = opts, tr_hasMore = (int (length opts) = limit),
               tr_totalCount = js_or (js_or totalTags totalField) (JNum (int (length opts)))\<rparr>"
    by blast
  from mapE_tag_option [OF pr, of page limit 0] m have "length opts = length rows"
    by auto
  with f show ?thesis by simp
qed

theorem hasMore_iff_full_page_witness:
  "successful_tag_fetch demo_platform 2 2 [] logged_in
     (JObj [(''data'', JArr [JObj [(''Tag'', JStr ''A'')], JObj [(''Tag'', JStr ''C'')]]),
            (''totalTags'', JNum 4)])
     [JObj [(''Tag'', JStr ''A'')], JObj [(''Tag'', JStr ''C'')]]
   \<and> (\<exists>res. fst (fetchTagOptions demo_platform 2 2 [] logged_in) = Inr res \<and>
          tr_hasMore res \<and> tr_totalCount res = JNum 4)
   \<and> successful_tag_fetch demo_platform 3 2 [] logged_in
        (JObj [(''data'', JArr []), (''totalTags'', JNum 4)]) []
   \<and> (\<exists>res. fst (fetchTagOptions demo_platform 3 2 [] logged_in) = Inr res \<and>
          \<not> tr_hasMore res)"
proof -
  have full: "successful_tag_fetch demo_platform 2 2 [] logged_in
     (JObj [(''data'', JArr [JObj [(''Tag'', JStr ''A'')], JObj [(''Tag'', JStr ''C'')]]),
            (''totalTags'', JNum 4)])
     [JObj [(''Tag'', JStr ''A'')], JObj [(''Tag'', JStr ''C'')]]"
    by code_simp
  have short: "successful_tag_fetch demo_platform 3 2 [] logged_in
        (JObj [(''data'', JArr []), (''totalTags'', JNum 4)]) []"
    by code_simp
  have total: "tr_totalCount (projr (fst (fetchTagOptions demo_platform 2 2 [] logged_in))) = JNum 4"
    by code_simp
  from hasMore_iff_full_page [OF full] total
  have a: "\<exists>res. fst (fetchTagOptions demo_platform 2 2 [] logged_in) = Inr res \<and>
          tr_hasMore res \<and> tr_totalCount res = JNum 4"
    by auto
  from hasMore_iff_full_page [OF short]
  have b: "\<exists>res. fst (fetchTagOptions demo_platform 3 2 [] logged_in) = Inr res \<and>
          \<not> tr_hasMore res"
    by auto
  from full a short b show ?thesis by blast
qed

text \<open>
  C1. The claim has the number \<open>(page - 1) * limit + i\<close> after the separator, and the
  expression \<^verbatim>\<open>tag.Tag + '::' + (page - 1) * limit + index\<close> has that sum in view. It is
  not what the expression computes: \<^verbatim>\<open>+\<close> associates to the left and its left operand
  is a string by the time the numbers come, so the offset and the index are appended as
  two numerals. On page 2 with limit 2 and the rows labelled A and C the values returned
  are \<^verbatim>\<open>A::20\<close> and \<^verbatim>\<open>C::21\<close>, where the claim has \<^verbatim>\<open>A::2\<close> and \<^verbatim>\<open>C::3\<close>. The four
  values of pages 1 and 2 are distinct all the same.
\<close>

theorem tag_value_concatenated_at_page_two:
  "fst (fetchTagOptions demo_platform 2 2 [] logged_in) =
     Inr \<lparr>tr_options =
            [\<lparr>opt_value = JStr ''A::20'', opt_label = JStr ''A'', opt_color = Undefined\<rparr>,
             \<lparr>opt_value = JStr ''C::21'', opt_label = JStr ''C'', opt_color = Undefined\<rparr>],
          tr_hasMore = True, tr_totalCount = JNum 4\<rparr>
   \<and> JStr (''A'' @ ''::'' @ num_toString ((2 - 1) * 2 + 0)) = JStr ''A::2''
   \<and> JStr (''C'' @ ''::'' @ num_toString ((2 - 1) * 2 + 1)) = JStr ''C::3''
   \<and> JStr ''A::20'' \<noteq> JStr ''A::2''
   \<and> JStr ''C::21'' \<noteq> JStr ''C::3''
   \<and> fst (fetchTagOptions demo_platform 1 2 [] logged_in) =
     Inr \<lparr>tr_options =
            [\<lparr>opt_value = JStr ''A::00'', opt_label = JStr ''A'', opt_color = Undefined\<rparr>,
             \<lparr>opt_value = JStr ''B::01'', opt_label = JStr ''B'', opt_color = Undefined\<rparr>],
          tr_hasMore = True, tr_totalCount = JNum 4\<rparr>
   \<and> distinct [JStr ''A::00'', JStr ''B::01'', JStr ''A::20'', JStr ''C::21'']"
  by code_simp

text \<open>
  C7 (as amended). On every successful tag fetch \<^verbatim>\<open>totalCount\<close> is the backend's
  \<^verbatim>\<open>totalTags\<close> field when that field is truthy, else the \<^verbatim>\<open>total\<close> field when that one
  is truthy, else the number of rows of the page. A field that is present but falsy
  (0, \<^verbatim>\<open>null\<close>, \<^verbatim>\<open>false\<close>, the empty string) is passed over like a missing one.
\<close>

theorem totalCount_first_truthy_total:
  assumes "successful_tag_fetch P page limit searchTerm w data rows"
  shows "\<exists>res totalTags totalField.
           fst (fetchTagOptions P page limit searchTerm w) = Inr res \<and>
           get_prop data ''totalTags'' = Inr totalTags \<and>
           get_prop data ''total'' = Inr totalField \<and>
           tr_totalCount res =
             (if truthy totalTags then totalTags
              else if truthy totalField then totalField
              else JNum (int (length rows)))"
proof -
  from assms have pr: "list_all present rows"
    by (simp add: successful_tag_fetch_def)
  from fetchTagOptions_success [OF assms] obtain opts totalTags totalField where
    m: "mapE (tag_option page limit) 0 rows = Inr opts" and
    g1: "get_prop data ''totalTags'' = Inr totalTags" and
    g2: "get_prop data ''total'' = Inr totalField" and
    f: "fst (fetchTagOptions P page limit searchTerm w) =
          Inr \<lparr>tr_options = opts, tr_hasMore = (int (length opts) = limit),
               tr_totalCount = js_or (js_or totalTags totalField) (JNum (int (length opts)))\<rparr>"
    by blast
  from mapE_tag_option [OF pr, of page limit 0] m have len: "length opts = length rows"
    by auto
  have "js_or (js_or totalTags totalField) (JNum (int (length opts))) =
          (if truthy totalTags then totalTags
           else if truthy totalField then totalField
           else JNum (int (length rows)))"
    by (simp add: js_or_def len)
  with f g1 g2 show ?thesis by simp
qed

theorem totalCount_first_truthy_total_witness:
  "successful_tag_fetch demo_platform 2 2 [] logged_in
     (JObj [(''data'', JArr [JObj [(''Tag'', JStr ''A'')], JObj [(''Tag'', JStr ''C'')]]),
            (''totalTags'', JNum 4)])
     [JObj [(''Tag'', JStr ''A'')], JObj [(''Tag'', JStr ''C'')]]
   \<and> (\<exists>res. fst (fetchTagOptions demo_platform 2 2 [] logged_in) = Inr res \<and>
          tr_totalCount res = JNum 4)"
proof -
  have ok: "successful_tag_fetch demo_platform 2 2 [] logged_in
     (JObj [(''data'', JArr [JObj [(''Tag'', JStr ''A'')], JObj [(''Tag'', JStr ''C'')]]),
            (''totalTags'', JNum 4)])
     [JObj [(''Tag'', JStr ''A'')], JObj [(''Tag'', JStr ''C'')]]"
    by code_simp
  from totalCount_first_truthy_total [OF ok]
  have "\<exists>res. fst (fetchTagOptions demo_platform 2 2 [] logged_in) = Inr res \<and>
          tr_totalCount res = JNum 4"
    by auto
  with ok show ?thesis by blast
qed

text \<open>
  The claim as first stated takes \<^verbatim>\<open>totalTags\<close> whenever the field is present. A body
  with one row and \<^verbatim>\<open>"totalTags":0\<close> has the field, and the count returned is the row
  count 1.
\<close>

theorem totalCount_present_zero_counterexample:
  "successful_tag_fetch demo_platform 1 5 [] logged_in
     (JObj [(''data'', JArr [JObj [(''Tag'', JStr ''A'')]]), (''totalTags'', JNum 0)])
     [JObj [(''Tag'', JStr ''A'')]]
   \<and> map_of [(''data'', JArr [JObj [(''Tag'', JStr ''A'')]]), (''totalTags'', JNum 0)]
        ''totalTags'' = Some (JNum 0)
   \<and> fst (fetchTagOptions demo_platform 1 5 [] logged_in) =
       Inr \<lparr>tr_options =
              [\<lparr>opt_value = JStr ''A::00'', opt_label = JStr ''A'', opt_color = Undefined\<rparr>],
            tr_hasMore = False, tr_totalCount = JNum 1\<rparr>
   \<and> JNum 1 \<noteq> JNum 0"
  by code_simp

section \<open>Session validation\<close>

lemma validateAuthToken_no_token:
  assumes "userToken w = None \<or> userToken w = Some []"
  shows "validateAuthToken P w = (Inr False, show_toast ''Please login again to access leads'' w)"
  using assms by (auto simp: validateAuthToken_def try_catch_def)

lemma validateAuthToken_malformed:
  assumes "userToken w = Some t" and "t \<noteq> []"
    and "decode_payload P t = Inl e
         \<or> (\<exists>payload. decode_payload P t = Inr payload \<and> get_prop payload ''exp'' = Inl e)"
  shows "validateAuthToken P w =
           (Inr False,
            deleteUserToken (show_toast ''Invalid session token. Please login again.'' w))"
  using assms by (auto simp: validateAuthToken_def try_catch_def)

lemma validateAuthToken_decoded:
  assumes "userToken w = Some t" and "t \<noteq> []"
    and "decode_payload P t = Inr payload" and "get_prop payload ''exp'' = Inr ex"
  shows "validateAuthToken P w =
           (if num_gt P (now_ms P div 1000) ex then
              (Inr False,
               deleteUserToken (show_toast ''Your session has expired. Please login again.'' w))
            else (Inr True, w))"
  using assms by (simp add: validateAuthToken_def try_catch_def Let_def)

text \<open>
  C5. With no token stored (or only the empty string, which \<^verbatim>\<open>!storedToken\<close> treats
  alike) the validation returns false, throws nothing and leaves the store as it is. With
  a token whose payload cannot be decoded (\<^verbatim>\<open>atob\<close> or \<^verbatim>\<open>JSON.parse\<close> throws, or the
  payload is \<^verbatim>\<open>null\<close>) it deletes the token and returns false. With a decoded payload it
  deletes the token and returns false when the clock, floored to seconds, exceeds
  \<^verbatim>\<open>exp\<close>, and otherwise returns true and changes nothing. So the token is deleted in
  the expired and the malformed case and in no other.
\<close>

theorem session_validation:
  "(userToken w = None \<or> userToken w = Some [] \<longrightarrow>
      fst (validateAuthToken P w) = Inr False \<and>
      userToken (snd (validateAuthToken P w)) = userToken w)
   \<and> (userToken w = Some t \<and> t \<noteq> [] \<and>
        (decode_payload P t = Inl e
         \<or> (\<exists>payload. decode_payload P t = Inr payload \<and> get_prop payload ''exp'' = Inl e))
        \<longrightarrow>
      fst (validateAuthToken P w) = Inr False \<and>
      userToken (snd (validateAuthToken P w)) = None)
   \<and> (userToken w = Some t \<and> t \<noteq> [] \<and> decode_payload P t = Inr payload \<and>
        get_prop payload ''exp'' = Inr (JNum expiry) \<and> now_ms P div 1000 > expiry \<longrightarrow>
      fst (validateAuthToken P w) = Inr False \<and>
      userToken (snd (validateAuthToken P w)) = None)
   \<and> (userToken w = Some t \<and> t \<noteq> [] \<and> decode_payload P t = Inr payload \<and>
        get_prop payload ''exp'' = Inr (JNum expiry) \<and> \<not> now_ms P div 1000 > expiry \<longrightarrow>
      validateAuthToken P w = (Inr True, w))
   \<and> (userToken w = Some t \<and> t \<noteq> [] \<and> decode_payload P t = Inr payload \<and>
        get_prop payload ''exp'' = Inr ex \<longrightarrow>
      (if num_gt P (now_ms P div 1000) ex
       then fst (validateAuthToken P w) = Inr False \<and>
            userToken (snd (validateAuthToken P w)) = None
       else validateAuthToken P w = (Inr True, w)))
   \<and> (\<exists>valid. fst (validateAuthToken P w) = Inr valid)"
proof (intro conjI impI)
  assume "userToken w = None \<or> userToken w = Some []"
  from validateAuthToken_no_token [OF this, of P]
  show "fst (validateAuthToken P w) = Inr False"
    and "userToken (snd (validateAuthToken P w)) = userToken w"
    by (simp_all add: show_toast_def)
next
  assume a: "userToken w = Some t \<and> t \<noteq> [] \<and>
        (decode_payload P t = Inl e
         \<or> (\<exists>payload. decode_payload P t = Inr payload \<and> get_prop payload ''exp'' = Inl e))"
  then have "validateAuthToken P w =
           (Inr False,
            deleteUserToken (show_toast ''Invalid session token. Please login again.'' w))"
    by (intro validateAuthToken_malformed [of w t P e]) simp_all
  then show "fst (validateAuthToken P w) = Inr False"
    and "userToken (snd (validateAuthToken P w)) = None"
    by (simp_all add: deleteUserToken_def)
next
  assume a: "userToken w = Some t \<and> t \<noteq> [] \<and> decode_payload P t = Inr payload \<and>
        get_prop payload ''exp'' = Inr (JNum expiry) \<and> now_ms P div 1000 > expiry"
  then have "validateAuthToken P w =
           (if num_gt P (now_ms P div 1000) (JNum expiry) then
              (Inr False,
               deleteUserToken (show_toast ''Your session has expired. Please login again.'' w))
            else (Inr True, w))"
    by (intro validateAuthToken_decoded [of w t P payload]) simp_all
  with a show "fst (validateAuthToken P w) = Inr False"
    and "userToken (snd (validateAuthToken P w)) = None"
    by (simp_all add: num_gt_def deleteUserToken_def)
next
  assume a: "userToken w = Some t \<and> t \<noteq> [] \<and> decode_payload P t = Inr payload \<and>
        get_prop payload ''exp'' = Inr (JNum expiry) \<and> \<not> now_ms P div 1000 > expiry"
  then have "validateAuthToken P w =
           (if num_gt P (now_ms P div 1000) (JNum expiry) then
              (Inr False,
               deleteUserToken (show_toast ''Your session has expired. Please login again.'' w))
            else (Inr True, w))"
    by (intro validateAuthToken_decoded [of w t P payload]) simp_all
  with a show "validateAuthToken P w = (Inr True, w)"
    by (simp add: num_gt_def)
next
  assume a: "userToken w = Some t \<and> t \<noteq> [] \<and> decode_payload P t = Inr payload \<and>
        get_prop payload ''exp'' = Inr ex"
  then have "validateAuthToken P w =
           (if num_gt P (now_ms P div 1000) ex then
              (Inr False,
               deleteUserToken (show_toast ''Your session has expired. Please login again.'' w))
            else (Inr True, w))"
    by (intro validateAuthToken_decoded [of w t P payload]) simp_all
  then show "if num_gt P (now_ms P div 1000) ex
       then fst (validateAuthToken P w) = Inr False \<and>
            userToken (snd (validateAuthToken P w)) = None
       else validateAuthToken P w = (Inr True, w)"
    by (simp add: deleteUserToken_def)
next
  show "\<exists>valid. fst (validateAuthToken P w) = Inr valid"
    by (auto simp: validateAuthToken_def try_catch_def Let_def
        split: option.splits sum.splits)
qed

theorem session_validation_witness:
  "userToken logged_out = None
   \<and> fst (validateAuthToken demo_platform logged_out) = Inr False
   \<and> userToken (snd (validateAuthToken demo_platform logged_out)) = None
   \<and> decode_payload demo_platform ''garbage'' = Inl InvalidCharacterError
   \<and> fst (validateAuthToken demo_platform (logged_out\<lparr>userToken := Some ''garbage''\<rparr>)) = Inr False
   \<and> userToken (snd (validateAuthToken demo_platform
                        (logged_out\<lparr>userToken := Some ''garbage''\<rparr>))) = None
   \<and> decode_payload demo_platform expired_token = Inr (JObj [(''exp'', JNum 1699999999)])
   \<and> now_ms demo_platform div 1000 = 1700000000
   \<and> fst (validateAuthToken demo_platform session_expired) = Inr False
   \<and> userToken (snd (validateAuthToken demo_platform session_expired)) = None
   \<and> decode_payload demo_platform valid_token = Inr (JObj [(''exp'', JNum 1700000001)])
   \<and> validateAuthToken demo_platform logged_in = (Inr True, logged_in)"
proof -
  have h1: "userToken logged_out = None"
    by (simp add: logged_out_def)
  have h2: "userToken (logged_out\<lparr>userToken := Some ''garbage''\<rparr>) = Some ''garbage''"
    "decode_payload demo_platform ''garbage'' = Inl InvalidCharacterError"
    by code_simp+
  have h3: "userToken session_expired = Some expired_token" "expired_token \<noteq> []"
    "decode_payload demo_platform expired_token = Inr (JObj [(''exp'', JNum 1699999999)])"
    "get_prop (JObj [(''exp'', JNum 1699999999)]) ''exp'' = Inr (JNum 1699999999)"
    "now_ms demo_platform div 1000 = 1700000000"
    by code_simp+
  have h4: "userToken logged_in = Some valid_token" "valid_token \<noteq> []"
    "decode_payload demo_platform valid_token = Inr (JObj [(''exp'', JNum 1700000001)])"
    "get_prop (JObj [(''exp'', JNum 1700000001)]) ''exp'' = Inr (JNum 1700000001)"
    by code_simp+
  have c1: "fst (validateAuthToken demo_platform logged_out) = Inr False
      \<and> userToken (snd (validateAuthToken demo_platform logged_out)) = None"
    using session_validation [THEN conjunct1, of logged_out demo_platform] h1 by simp
  have c2: "fst (validateAuthToken demo_platform (logged_out\<lparr>userToken := Some ''garbage''\<rparr>))
        = Inr False
      \<and> userToken (snd (validateAuthToken demo_platform
                        (logged_out\<lparr>userToken := Some ''garbage''\<rparr>))) = None"
    using session_validation [THEN conjunct2, THEN conjunct1,
        of "logged_out\<lparr>userToken := Some ''garbage''\<rparr>" "''garbage''" demo_platform
           InvalidCharacterError] h2
    by simp
  have c3: "fst (validateAuthToken demo_platform session_expired) = Inr False
      \<and> userToken (snd (validateAuthToken demo_platform session_expired)) = None"
    using session_validation [THEN conjunct2, THEN conjunct2, THEN conjunct1,
        of session_expired expired_token demo_platform "JObj [(''exp'', JNum 1699999999)]"
           1699999999] h3
    by simp
  have c4: "validateAuthToken demo_platform logged_in = (Inr True, logged_in)"
    using session_validation [THEN conjunct2, THEN conjunct2, THEN conjunct2, THEN conjunct1,
        of logged_in valid_token demo_platform "JObj [(''exp'', JNum 1700000001)]"
           1700000001] h4 h3(5)
    by simp
  from h1 c1 h2(2) c2 h3(3) h3(5) c3 h4(3) c4 show ?thesis
    by (intro conjI) simp_all
qed

section \<open>The composed leads request\<close>

lemma digit_char_cases:
  assumes "d < 10"
  shows "is_digit (digit_char d) \<and> digit_value (digit_char d) = d"
proof -
  from assms have "d = 0 \<or> d = 1 \<or> d = 2 \<or> d = 3 \<or> d = 4 \<or> d = 5 \<or> d = 6 \<or> d = 7
      \<or> d = 8 \<or> d = 9"
    by arith
  then show ?thesis
    by (elim disjE) (simp_all add: digit_char_def is_digit_def digit_value_def)
qed

lemma digits_are_digits: "list_all is_digit (digits n)"
proof (induction n rule: digits.induct)
  case (1 n)
  show ?case
  proof (cases "n < 10")
    case True
    then show ?thesis
      by (subst digits.simps) (simp add: digit_char_cases)
  next
    case False
    with "1.IH" have "list_all is_digit (digits (n div 10))" by simp
    moreover have "is_digit (digit_char (n mod 10))" by (simp add: digit_char_cases)
    ultimately show ?thesis using False
      by (subst digits.simps) simp
  qed
qed

lemma digits_not_empty: "digits n \<noteq> []"
  by (subst digits.simps) simp

lemma read_digits_digits: "read_digits (digits n) = n"
proof (induction n rule: digits.induct)
  case (1 n)
  show ?case
  proof (cases "n < 10")
    case True
    then show ?thesis
      by (subst digits.simps) (simp add: read_digits_def digit_char_cases)
  next
    case False
    with "1.IH" have ih: "read_digits (digits (n div 10)) = n div 10" by simp
    have "read_digits (digits n) = 10 * read_digits (digits (n div 10))
            + digit_value (digit_char (n mod 10))"
      using False by (subst digits.simps) (simp add: read_digits_def)
    also have "\<dots> = 10 * (n div 10) + n mod 10"
      by (simp add: ih digit_char_cases)
    finally show ?thesis by simp
  qed
qed

lemma read_decimal_num_toString: "read_decimal (num_toString i) = i"
proof (cases "i < 0")
  case True
  then show ?thesis
    by (simp add: read_decimal_def num_toString_def read_digits_digits)
next
  case False
  obtain c ds where cd: "digits (nat i) = c # ds"
    using digits_not_empty [of "nat i"] by (cases "digits (nat i)") auto
  from digits_are_digits [of "nat i"] cd have "is_digit c" by simp
  then have "c \<noteq> CHR ''-''" by (auto simp: is_digit_def)
  with False cd read_digits_digits [of "nat i"] show ?thesis
    by (simp add: read_decimal_def num_toString_def)
qed

lemma buildLeadsRequestBody_returns:
  assumes "date_strings P filters = Inr dates"
  shows "buildLeadsRequestBody P u filters searchText pagination opts =
     Inr \<lparr>b_searchTerm = trim P searchText,
          b_selectedAgents = fst (scope_of u filters),
          b_selectedStatuses = (case f_selectedStatuses filters of None \<Rightarrow> [] | Some xs \<Rightarrow> xs),
          b_selectedSources = (case f_selectedSources filters of None \<Rightarrow> [] | Some xs \<Rightarrow> xs),
          b_selectedTags = (case f_selectedTags filters of None \<Rightarrow> [] | Some xs \<Rightarrow> xs),
          b_date = dates,
          b_dateFor = (case f_dateFor filters of
                         None \<Rightarrow> ''LeadIntroduction''
                       | Some d \<Rightarrow> if d = [] then ''LeadIntroduction'' else d),
          b_searchBoxFilters =
            (case f_searchBoxFilters filters of None \<Rightarrow> [''LeadInfo''] | Some xs \<Rightarrow> xs),
          b_page = p_page pagination + 1,
          b_limit = num_toString (p_limit pagination),
          b_userid = user_id u,
          b_includeNonAssigned =
            spread (o_includeNonAssigned (snd (scope_of u filters))) (o_includeNonAssigned opts),
          b_viewAllLeads =
            spread (o_viewAllLeads (snd (scope_of u filters))) (o_viewAllLeads opts)\<rparr>"
  using assms by (simp add: buildLeadsRequestBody_def split: prod.splits)

text \<open>
  C4. Whenever the composer returns a body (it does unless the date range holds an
  invalid date), the body's \<^verbatim>\<open>page\<close> is \<^verbatim>\<open>pagination.page + 1\<close>, for every page and so
  for every page from 0 on, and its \<^verbatim>\<open>limit\<close> is a string: the decimal rendering of
  \<^verbatim>\<open>pagination.limit\<close>, which reads back as that number.
\<close>

theorem page_one_based_limit_decimal_string:
  assumes "date_strings P filters = Inr dates"
  shows "\<exists>body. buildLeadsRequestBody P u filters searchText pagination opts = Inr body \<and>
           b_page body = p_page pagination + 1 \<and>
           (0 \<le> p_page pagination \<longrightarrow> 1 \<le> b_page body) \<and>
           b_limit body = num_toString (p_limit pagination) \<and>
           read_decimal (b_limit body) = p_limit pagination \<and>
           (0 \<le> p_limit pagination \<longrightarrow> list_all is_digit (b_limit body))"
proof -
  have "0 \<le> p_limit pagination \<Longrightarrow> list_all is_digit (num_toString (p_limit pagination))"
    by (simp add: num_toString_def digits_are_digits)
  then show ?thesis
    by (simp add: buildLeadsRequestBody_returns [OF assms] read_decimal_num_toString)
qed

theorem page_one_based_limit_decimal_string_witness:
  "date_strings demo_platform
     \<lparr>f_searchTerm = [], f_searchBoxFilters = None, f_selectedAgents = None,
      f_selectedStatuses = None, f_selectedSources = None, f_selectedTags = None,
      f_dateRange = Some (Some (Date (Some 1700000000123)), None), f_dateFor = None\<rparr>
     = Inr [''2023-11-14T22:13:20.123Z'']
   \<and> (\<exists>body. buildLeadsRequestBody demo_platform
          \<lparr>user_id = ''u1'', user_role = ''agent'', user_lead_permissions = None\<rparr>
          \<lparr>f_searchTerm = [], f_searchBoxFilters = None, f_selectedAgents = None,
           f_selectedStatuses = None, f_selectedSources = None, f_selectedTags = None,
           f_dateRange = Some (Some (Date (Some 1700000000123)), None), f_dateFor = None\<rparr>
          '' rao '' \<lparr>p_page = 0, p_limit = 25\<rparr> no_options = Inr body
        \<and> b_page body = 1 \<and> b_limit body = ''25'' \<and> read_decimal (b_limit body) = 25)"
proof -
  let ?f = "\<lparr>f_searchTerm = [], f_searchBoxFilters = None, f_selectedAgents = None,
      f_selectedStatuses = None, f_selectedSources = None, f_selectedTags = None,
      f_dateRange = Some (Some (Date (Some 1700000000123)), None), f_dateFor = None\<rparr>"
  have d: "date_strings demo_platform ?f = Inr [''2023-11-14T22:13:20.123Z'']"
    by code_simp
  have n: "num_toString 25 = ''25''"
    by code_simp
  from page_one_based_limit_decimal_string [OF d,
      of "\<lparr>user_id = ''u1'', user_role = ''agent'', user_lead_permissions = None\<rparr>"
         "'' rao ''" "\<lparr>p_page = 0, p_limit = 25\<rparr>" no_options] n
  have "\<exists>body. buildLeadsRequestBody demo_platform
          \<lparr>user_id = ''u1'', user_role = ''agent'', user_lead_permissions = None\<rparr> ?f
          '' rao '' \<lparr>p_page = 0, p_limit = 25\<rparr> no_options = Inr body
        \<and> b_page body = 1 \<and> b_limit body = ''25'' \<and> read_decimal (b_limit body) = 25"
    by auto
  with d show ?thesis by blast
qed

text \<open>
  C3 (as amended). The scope of the composed request follows the first branch that
  applies, for every user and agent selection and for each flag that the caller's extra
  options leave out. With a non-empty agent selection the body's \<^verbatim>\<open>selectedAgents\<close> is
  the selection as given, \<^verbatim>\<open>includeNonAssigned\<close> is true exactly when \<^verbatim>\<open>non-assigned\<close>
  is selected, and \<^verbatim>\<open>viewAllLeads\<close> is true exactly when in addition the user's lead
  capabilities hold \<^verbatim>\<open>view_non_assigned\<close> or \<^verbatim>\<open>view_all\<close>, or the role is
  \<^verbatim>\<open>superAdmin\<close>. Without a selection a \<^verbatim>\<open>superAdmin\<close> gets the empty agent list and
  \<^verbatim>\<open>viewAllLeads\<close>, and any other user gets the list of the own id and no flag. A flag
  that is not true is absent from the body, not false. A flag the caller gives in the
  extra options replaces the computed one.
\<close>

theorem scope_resolution_priority:
  assumes "date_strings P filters = Inr dates"
  shows "\<exists>body. buildLeadsRequestBody P u filters searchText pagination opts = Inr body \<and>
    (\<forall>sel. f_selectedAgents filters = Some sel \<and> sel \<noteq> [] \<longrightarrow>
       b_selectedAgents body = sel \<and>
       (o_includeNonAssigned opts = None \<longrightarrow>
          b_includeNonAssigned body =
            (if ''non-assigned'' \<in> set sel then Some True else None)) \<and>
       (o_viewAllLeads opts = None \<longrightarrow>
          b_viewAllLeads body =
            (if ''non-assigned'' \<in> set sel \<and>
                ((\<exists>lead. user_lead_permissions u = Some lead \<and>
                    (''view_non_assigned'' \<in> set lead \<or> ''view_all'' \<in> set lead))
                 \<or> user_role u = ''superAdmin'')
             then Some True else None))) \<and>
    ((f_selectedAgents filters = None \<or> f_selectedAgents filters = Some []) \<and>
     user_role u = ''superAdmin'' \<longrightarrow>
       b_selectedAgents body = [] \<and>
       (o_viewAllLeads opts = None \<longrightarrow> b_viewAllLeads body = Some True) \<and>
       (o_includeNonAssigned opts = None \<longrightarrow> b_includeNonAssigned body = None)) \<and>
    ((f_selectedAgents filters = None \<or> f_selectedAgents filters = Some []) \<and>
     user_role u \<noteq> ''superAdmin'' \<longrightarrow>
       b_selectedAgents body = [user_id u] \<and>
       (o_viewAllLeads opts = None \<longrightarrow> b_viewAllLeads body = None) \<and>
       (o_includeNonAssigned opts = None \<longrightarrow> b_includeNonAssigned body = None)) \<and>
    (\<forall>b. o_includeNonAssigned opts = Some b \<longrightarrow> b_includeNonAssigned body = Some b) \<and>
    (\<forall>b. o_viewAllLeads opts = Some b \<longrightarrow> b_viewAllLeads body = Some b)"
proof -
  let ?body = "\<lparr>b_searchTerm = trim P searchText,
          b_selectedAgents = fst (scope_of u filters),
          b_selectedStatuses = (case f_selectedStatuses filters of None \<Rightarrow> [] | Some xs \<Rightarrow> xs),
          b_selectedSources = (case f_selectedSources filters of None \<Rightarrow> [] | Some xs \<Rightarrow> xs),
          b_selectedTags = (case f_selectedTags filters of None \<Rightarrow> [] | Some xs \<Rightarrow> xs),
          b_date = dates,
          b_dateFor = (case f_dateFor filters of
                         None \<Rightarrow> ''LeadIntroduction''
                       | Some d \<Rightarrow> if d = [] then ''LeadIntroduction'' else d),
          b_searchBoxFilters =
            (case f_searchBoxFilters filters of None \<Rightarrow> [''LeadInfo''] | Some xs \<Rightarrow> xs),
          b_page = p_page pagination + 1,
          b_limit = num_toString (p_limit pagination),
          b_userid = user_id u,
          b_includeNonAssigned =
            spread (o_includeNonAssigned (snd (scope_of u filters))) (o_includeNonAssigned opts),
          b_viewAllLeads =
            spread (o_viewAllLeads (snd (scope_of u filters))) (o_viewAllLeads opts)\<rparr>"
  have ret: "buildLeadsRequestBody P u filters searchText pagination opts = Inr ?body"
    by (rule buildLeadsRequestBody_returns [OF assms])
  have capability: "may_view_all u \<longleftrightarrow>
      (\<exists>lead. user_lead_permissions u = Some lead \<and>
         (''view_non_assigned'' \<in> set lead \<or> ''view_all'' \<in> set lead))
      \<or> user_role u = ''superAdmin''"
    by (cases "user_lead_permissions u") (auto simp: may_view_all_def lead_includes_def)
  have selected: "scope_of u filters =
      (sel,
       if ''non-assigned'' \<in> set sel then
         \<lparr>o_includeNonAssigned = Some True,
          o_viewAllLeads = (if may_view_all u then Some True else None)\<rparr>
       else no_options)"
    if "f_selectedAgents filters = Some sel" and "sel \<noteq> []" for sel
    using that by (cases sel) (simp_all add: scope_of_def)
  have unselected: "scope_of u filters =
      (if user_role u = ''superAdmin'' then
         ([], \<lparr>o_includeNonAssigned = None, o_viewAllLeads = Some True\<rparr>)
       else ([user_id u], no_options))"
    if "f_selectedAgents filters = None \<or> f_selectedAgents filters = Some []"
    using that by (auto simp: scope_of_def)
  show ?thesis
  proof (intro exI [of _ ?body] conjI allI impI)
    show "buildLeadsRequestBody P u filters searchText pagination opts = Inr ?body"
      by (rule ret)
  next
    fix sel
    assume a: "f_selectedAgents filters = Some sel \<and> sel \<noteq> []"
      and o: "o_viewAllLeads opts = None"
    from a have sc: "scope_of u filters =
      (sel,
       if ''non-assigned'' \<in> set sel then
         \<lparr>o_includeNonAssigned = Some True,
          o_viewAllLeads = (if may_view_all u then Some True else None)\<rparr>
       else no_options)"
      by (intro selected) simp_all
    show "b_viewAllLeads ?body =
            (if ''non-assigned'' \<in> set sel \<and>
                ((\<exists>lead. user_lead_permissions u = Some lead \<and>
                    (''view_non_assigned'' \<in> set lead \<or> ''view_all'' \<in> set lead))
                 \<or> user_role u = ''superAdmin'')
             then Some True else None)"
      using o capability by (simp add: sc spread_def no_options_def)
  qed (auto simp: selected unselected spread_def no_options_def)
qed

theorem scope_resolution_priority_witness:
  "date_strings demo_platform
     \<lparr>f_searchTerm = [], f_searchBoxFilters = None, f_selectedAgents = Some [''non-assigned''],
      f_selectedStatuses = None, f_selectedSources = None, f_selectedTags = None,
      f_dateRange = None, f_dateFor = None\<rparr> = Inr []
   \<and> (\<exists>body. buildLeadsRequestBody demo_platform
          \<lparr>user_id = ''u1'', user_role = ''agent'', user_lead_permissions = Some [''view_own'']\<rparr>
          \<lparr>f_searchTerm = [], f_searchBoxFilters = None,
           f_selectedAgents = Some [''non-assigned''],
           f_selectedStatuses = None, f_selectedSources = None, f_selectedTags = None,
           f_dateRange = None, f_dateFor = None\<rparr>
          [] \<lparr>p_page = 0, p_limit = 25\<rparr> no_options = Inr body
        \<and> b_selectedAgents body = [''non-assigned'']
        \<and> b_includeNonAssigned body = Some True
        \<and> b_viewAllLeads body = None)
   \<and> (\<exists>body. buildLeadsRequestBody demo_platform
          \<lparr>user_id = ''u2'', user_role = ''agent'',
           user_lead_permissions = Some [''view_own'', ''view_all'']\<rparr>
          \<lparr>f_searchTerm = [], f_searchBoxFilters = None,
           f_selectedAgents = Some [''non-assigned''],
           f_selectedStatuses = None, f_selectedSources = None, f_selectedTags = None,
           f_dateRange = None, f_dateFor = None\<rparr>
          [] \<lparr>p_page = 0, p_limit = 25\<rparr> no_options = Inr body
        \<and> b_selectedAgents body = [''non-assigned'']
        \<and> b_includeNonAssigned body = Some True
        \<and> b_viewAllLeads body = Some True)
   \<and> (\<exists>body. buildLeadsRequestBody demo_platform
          \<lparr>user_id = ''u3'', user_role = ''agent'',
           user_lead_permissions = Some [''view_non_assigned'']\<rparr>
          \<lparr>f_searchTerm = [], f_searchBoxFilters = None,
           f_selectedAgents = Some [''non-assigned''],
           f_selectedStatuses = None, f_selectedSources = None, f_selectedTags = None,
           f_dateRange = None, f_dateFor = None\<rparr>
          [] \<lparr>p_page = 0, p_limit = 25\<rparr> no_options = Inr body
        \<and> b_viewAllLeads body = Some True)
   \<and> (\<exists>body. buildLeadsRequestBody demo_platform
          \<lparr>user_id = ''root'', user_role = ''superAdmin'', user_lead_permissions = None\<rparr>
          \<lparr>f_searchTerm = [], f_searchBoxFilters = None,
           f_selectedAgents = Some [''non-assigned''],
           f_selectedStatuses = None, f_selectedSources = None, f_selectedTags = None,
           f_dateRange = None, f_dateFor = None\<rparr>
          [] \<lparr>p_page = 0, p_limit = 25\<rparr> no_options = Inr body
        \<and> b_selectedAgents body = [''non-assigned'']
        \<and> b_includeNonAssigned body = Some True
        \<and> b_viewAllLeads body = Some True)
   \<and> (\<exists>body. buildLeadsRequestBody demo_platform
          \<lparr>user_id = ''u2'', user_role = ''agent'',
           user_lead_permissions = Some [''view_own'', ''view_all'']\<rparr>
          \<lparr>f_searchTerm = [], f_searchBoxFilters = None, f_selectedAgents = Some [''u7''],
           f_selectedStatuses = None, f_selectedSources = None, f_selectedTags = None,
           f_dateRange = None, f_dateFor = None\<rparr>
          [] \<lparr>p_page = 0, p_limit = 25\<rparr> no_options = Inr body
        \<and> b_selectedAgents body = [''u7'']
        \<and> b_includeNonAssigned body = None
        \<and> b_viewAllLeads body = None)
   \<and> (\<exists>body. buildLeadsRequestBody demo_platform
          \<lparr>user_id = ''root'', user_role = ''superAdmin'', user_lead_permissions = None\<rparr>
          \<lparr>f_searchTerm = [], f_searchBoxFilters = None, f_selectedAgents = Some [],
           f_selectedStatuses = None, f_selectedSources = None, f_selectedTags = None,
           f_dateRange = None, f_dateFor = None\<rparr>
          [] \<lparr>p_page = 0, p_limit = 25\<rparr> no_options = Inr body
        \<and> b_selectedAgents body = []
        \<and> b_includeNonAssigned body = None
        \<and> b_viewAllLeads body = Some True)
   \<and> (\<exists>body. buildLeadsRequestBody demo_platform
          \<lparr>user_id = ''u1'', user_role = ''agent'', user_lead_permissions = Some [''view_own'']\<rparr>
          \<lparr>f_searchTerm = [], f_searchBoxFilters = None, f_selectedAgents = Some [],
           f_selectedStatuses = None, f_selectedSources = None, f_selectedTags = None,
           f_dateRange = None, f_dateFor = None\<rparr>
          [] \<lparr>p_page = 0, p_limit = 25\<rparr> no_options = Inr body
        \<and> b_selectedAgents body = [''u1'']
        \<and> b_includeNonAssigned body = None
        \<and> b_viewAllLeads body = None)
   \<and> (\<exists>body. buildLeadsRequestBody demo_platform
          \<lparr>user_id = ''u1'', user_role = ''agent'', user_lead_permissions = Some [''view_own'']\<rparr>
          \<lparr>f_searchTerm = [], f_searchBoxFilters = None, f_selectedAgents = Some [],
           f_selectedStatuses = None, f_selectedSources = None, f_selectedTags = None,
           f_dateRange = None, f_dateFor = None\<rparr>
          [] \<lparr>p_page = 0, p_limit = 25\<rparr>
          \<lparr>o_includeNonAssigned = None, o_viewAllLeads = Some True\<rparr> = Inr body
        \<and> b_selectedAgents body = [''u1'']
        \<and> b_viewAllLeads body = Some True)"
proof -
  let ?sel = "\<lparr>f_searchTerm = [], f_searchBoxFilters = None,
      f_selectedAgents = Some [''non-assigned''],
      f_selectedStatuses = None, f_selectedSources = None, f_selectedTags = None,
      f_dateRange = None, f_dateFor = None\<rparr>"
  let ?other = "\<lparr>f_searchTerm = [], f_searchBoxFilters = None, f_selectedAgents = Some [''u7''],
      f_selectedStatuses = None, f_selectedSources = None, f_selectedTags = None,
      f_dateRange = None, f_dateFor = None\<rparr>"
  let ?none = "\<lparr>f_searchTerm = [], f_searchBoxFilters = None, f_selectedAgents = Some [],
      f_selectedStatuses = None, f_selectedSources = None, f_selectedTags = None,
      f_dateRange = None, f_dateFor = None\<rparr>"
  let ?agent = "\<lparr>user_id = ''u1'', user_role = ''agent'',
      user_lead_permissions = Some [''view_own'']\<rparr>"
  let ?all = "\<lparr>user_id = ''u2'', user_role = ''agent'',
      user_lead_permissions = Some [''view_own'', ''view_all'']\<rparr>"
  let ?na = "\<lparr>user_id = ''u3'', user_role = ''agent'',
      user_lead_permissions = Some [''view_non_assigned'']\<rparr>"
  let ?root = "\<lparr>user_id = ''root'', user_role = ''superAdmin'', user_lead_permissions = None\<rparr>"
  let ?pg = "\<lparr>p_page = 0, p_limit = 25\<rparr>"
  let ?given = "\<lparr>o_includeNonAssigned = None, o_viewAllLeads = Some True\<rparr>"
  have d1: "date_strings demo_platform ?sel = Inr []"
    and d2: "date_strings demo_platform ?none = Inr []"
    and d3: "date_strings demo_platform ?other = Inr []"
    by (simp_all add: date_strings_def)
  have o: "o_includeNonAssigned no_options = None" "o_viewAllLeads no_options = None"
    by (simp_all add: no_options_def)
  from scope_resolution_priority [OF d1, of ?agent "[]" ?pg no_options] o
  have a: "\<exists>body. buildLeadsRequestBody demo_platform ?agent ?sel [] ?pg no_options = Inr body
        \<and> b_selectedAgents body = [''non-assigned'']
        \<and> b_includeNonAssigned body = Some True
        \<and> b_viewAllLeads body = None"
    by (elim exE) (rule exI, auto)
  from scope_resolution_priority [OF d1, of ?all "[]" ?pg no_options] o
  have b: "\<exists>body. buildLeadsRequestBody demo_platform ?all ?sel [] ?pg no_options = Inr body
        \<and> b_selectedAgents body = [''non-assigned'']
        \<and> b_includeNonAssigned body = Some True
        \<and> b_viewAllLeads body = Some True"
    by (elim exE) (rule exI, auto)
  from scope_resolution_priority [OF d1, of ?na "[]" ?pg no_options] o
  have c: "\<exists>body. buildLeadsRequestBody demo_platform ?na ?sel [] ?pg no_options = Inr body
        \<and> b_viewAllLeads body = Some True"
    by (elim exE) (rule exI, auto)
  from scope_resolution_priority [OF d1, of ?root "[]" ?pg no_options] o
  have d: "\<exists>body. buildLeadsRequestBody demo_platform ?root ?sel [] ?pg no_options = Inr body
        \<and> b_selectedAgents body = [''non-assigned'']
        \<and> b_includeNonAssigned body = Some True
        \<and> b_viewAllLeads body = Some True"
    by (elim exE) (rule exI, auto)
  from scope_resolution_priority [OF d3, of ?all "[]" ?pg no_options] o
  have e: "\<exists>body. buildLeadsRequestBody demo_platform ?all ?other [] ?pg no_options = Inr body
        \<and> b_selectedAgents body = [''u7'']
        \<and> b_includeNonAssigned body = None
        \<and> b_viewAllLeads body = None"
    by (elim exE) (rule exI, auto)
  from scope_resolution_priority [OF d2, of ?root "[]" ?pg no_options] o
  have f: "\<exists>body. buildLeadsRequestBody demo_platform ?root ?none [] ?pg no_options = Inr body
        \<and> b_selectedAgents body = []
        \<and> b_includeNonAssigned body = None
        \<and> b_viewAllLeads body = Some True"
    by (elim exE) (rule exI, auto)
  from scope_resolution_priority [OF d2, of ?agent "[]" ?pg no_options] o
  have g: "\<exists>body. buildLeadsRequestBody demo_platform ?agent ?none [] ?pg no_options = Inr body
        \<and> b_selectedAgents body = [''u1'']
        \<and> b_includeNonAssigned body = None
        \<and> b_viewAllLeads body = None"
    by (elim exE) (rule exI, auto)
  from scope_resolution_priority [OF d2, of ?agent "[]" ?pg ?given]
  have h: "\<exists>body. buildLeadsRequestBody demo_platform ?agent ?none [] ?pg ?given = Inr body
        \<and> b_selectedAgents body = [''u1'']
        \<and> b_viewAllLeads body = Some True"
    by (elim exE) (rule exI, auto)
  from d1 a b c d e f g h show ?thesis by (intro conjI)
qed

text \<open>
  The claim as first stated fixes the flags for every call and has \<^verbatim>\<open>viewAllLeads\<close>
  false for a user without the capabilities. A \<^verbatim>\<open>superAdmin\<close> without a selection who
  passes \<^verbatim>\<open>viewAllLeads: false\<close> in the extra options gets false, not true; and for a user
  without the capabilities who selects \<^verbatim>\<open>non-assigned\<close> the flag is absent, not false.
\<close>

theorem scope_flag_override_counterexample:
  "map_sum id b_viewAllLeads
     (buildLeadsRequestBody demo_platform
        \<lparr>user_id = ''root'', user_role = ''superAdmin'', user_lead_permissions = None\<rparr>
        \<lparr>f_searchTerm = [], f_searchBoxFilters = None, f_selectedAgents = Some [],
         f_selectedStatuses = None, f_selectedSources = None, f_selectedTags = None,
         f_dateRange = None, f_dateFor = None\<rparr>
        [] \<lparr>p_page = 0, p_limit = 25\<rparr>
        \<lparr>o_includeNonAssigned = None, o_viewAllLeads = Some False\<rparr>) = Inr (Some False)
   \<and> Some False \<noteq> Some True
   \<and> map_sum id b_viewAllLeads
     (buildLeadsRequestBody demo_platform
        \<lparr>user_id = ''u1'', user_role = ''agent'', user_lead_permissions = Some [''view_own'']\<rparr>
        \<lparr>f_searchTerm = [], f_searchBoxFilters = None,
         f_selectedAgents = Some [''non-assigned''],
         f_selectedStatuses = None, f_selectedSources = None, f_selectedTags = None,
         f_dateRange = None, f_dateFor = None\<rparr>
        [] \<lparr>p_page = 0, p_limit = 25\<rparr> no_options) = Inr None
   \<and> (None :: bool option) \<noteq> Some False"
  by (simp add: buildLeadsRequestBody_def scope_of_def date_strings_def spread_def
      no_options_def may_view_all_def lead_includes_def)

section \<open>Best-effort option fetchers\<close>

lemma try_catch_returns:
  "\<exists>x. fst (try_catch m (\<lambda>e. return_io d) w) = Inr x"
  by (auto simp: try_catch_def return_io_def split: prod.splits sum.splits)

lemma best_effort_fails:
  assumes "fetch_fails P w mk"
  shows "fst (try_catch
               (bind_io (createAuthHeaders P) (\<lambda>hdrs.
                bind_io (fetch P (mk hdrs)) (\<lambda>response.
                  if resp_ok response then k response else return_io d)))
               (\<lambda>e. return_io d) w) = Inr d"
proof (cases "createAuthHeaders P w")
  case (Pair r w')
  show ?thesis
  proof (cases r)
    case (Inl e)
    with Pair show ?thesis
      by (simp add: try_catch_def bind_io_def return_io_def)
  next
    case (Inr hdrs)
    with Pair assms have "case net P (mk hdrs) of Rejected ms e \<Rightarrow> True
                          | Responded ms r \<Rightarrow> \<not> resp_ok r"
      by (simp add: fetch_fails_def)
    with Pair Inr show ?thesis
      by (simp add: try_catch_def bind_io_def return_io_def fetch_def Let_def
          split: net_outcome.splits)
  qed
qed

lemma no_token_fetch_fails:
  "userToken w = None \<or> userToken w = Some [] \<Longrightarrow> fetch_fails P w mk"
  by (auto simp: fetch_fails_def createAuthHeaders_def)

text \<open>
  C8. The four best-effort fetchers (statuses, sources, tags, agents) never throw:
  whatever the store holds and the backend answers, each returns a value. With no token,
  on a transport failure and on a response that is not 2xx, that value is the empty
  result: the empty list, and for tags no options, \<^verbatim>\<open>hasMore\<close> false and
  \<^verbatim>\<open>totalCount\<close> 0.
\<close>

theorem option_fetchers_never_throw:
  "(\<exists>opts. fst (fetchStatusOptions P w) = Inr opts)
   \<and> (\<exists>opts. fst (fetchSourceOptions P w) = Inr opts)
   \<and> (\<exists>res. fst (fetchTagOptions P page limit searchTerm w) = Inr res)
   \<and> (\<exists>nodes. fst (fetchAgents P usr w) = Inr nodes)
   \<and> (fetch_fails P w (get_request P ''/api/Status/get'') \<longrightarrow>
        fst (fetchStatusOptions P w) = Inr [])
   \<and> (fetch_fails P w (get_request P ''/api/Source/get'') \<longrightarrow>
        fst (fetchSourceOptions P w) = Inr [])
   \<and> (fetch_fails P w (tags_request P page limit searchTerm) \<longrightarrow>
        fst (fetchTagOptions P page limit searchTerm w) =
          Inr \<lparr>tr_options = [], tr_hasMore = False, tr_totalCount = JNum 0\<rparr>)
   \<and> (fetch_fails P w (get_request P ''/api/staff/get?preserveHierarchy=true'') \<longrightarrow>
        fst (fetchAgents P usr w) = Inr [])
   \<and> (userToken w = None \<or> userToken w = Some [] \<longrightarrow>
        fst (fetchStatusOptions P w) = Inr [] \<and>
        fst (fetchSourceOptions P w) = Inr [] \<and>
        fst (fetchTagOptions P page limit searchTerm w) =
          Inr \<lparr>tr_options = [], tr_hasMore = False, tr_totalCount = JNum 0\<rparr> \<and>
        fst (fetchAgents P usr w) = Inr [])"
proof -
  have agents_returns: "\<exists>nodes. fst (fetchAgents P usr w) = Inr nodes"
  proof (cases usr)
    case None
    then show ?thesis by (simp add: fetchAgents_def return_io_def)
  next
    case (Some u)
    show ?thesis
    proof (cases "user_id u = []")
      case True
      with Some show ?thesis by (simp add: fetchAgents_def return_io_def)
    next
      case False
      with Some show ?thesis
        unfolding fetchAgents_def by (simp add: try_catch_returns)
    qed
  qed
  have statuses: "fst (fetchStatusOptions P w) = Inr []"
    if "fetch_fails P w (get_request P ''/api/Status/get'')"
    unfolding fetchStatusOptions_def using that by (rule best_effort_fails)
  have sources: "fst (fetchSourceOptions P w) = Inr []"
    if "fetch_fails P w (get_request P ''/api/Source/get'')"
    unfolding fetchSourceOptions_def using that by (rule best_effort_fails)
  have tags: "fst (fetchTagOptions P page limit searchTerm w) =
          Inr \<lparr>tr_options = [], tr_hasMore = False, tr_totalCount = JNum 0\<rparr>"
    if "fetch_fails P w (tags_request P page limit searchTerm)"
    unfolding fetchTagOptions_def no_tags_def using that by (rule best_effort_fails)
  have agents: "fst (fetchAgents P usr w) = Inr []"
    if f: "fetch_fails P w (get_request P ''/api/staff/get?preserveHierarchy=true'')"
  proof (cases usr)
    case None
    then show ?thesis by (simp add: fetchAgents_def return_io_def)
  next
    case (Some u)
    show ?thesis
    proof (cases "user_id u = []")
      case True
      with Some show ?thesis by (simp add: fetchAgents_def return_io_def)
    next
      case False
      with Some show ?thesis
        unfolding fetchAgents_def using best_effort_fails [OF f] by simp
    qed
  qed
  show ?thesis
  proof (intro conjI impI)
    show "\<exists>opts. fst (fetchStatusOptions P w) = Inr opts"
      unfolding fetchStatusOptions_def by (rule try_catch_returns)
    show "\<exists>opts. fst (fetchSourceOptions P w) = Inr opts"
      unfolding fetchSourceOptions_def by (rule try_catch_returns)
    show "\<exists>res. fst (fetchTagOptions P page limit searchTerm w) = Inr res"
      unfolding fetchTagOptions_def by (rule try_catch_returns)
    show "\<exists>nodes. fst (fetchAgents P usr w) = Inr nodes"
      by (rule agents_returns)
  qed (simp_all add: statuses sources tags agents no_token_fetch_fails)
qed

theorem option_fetchers_never_throw_witness:
  "userToken logged_out = None
   \<and> fst (fetchStatusOptions demo_platform logged_out) = Inr []
   \<and> fst (fetchTagOptions demo_platform 1 2 [] logged_out) =
       Inr \<lparr>tr_options = [], tr_hasMore = False, tr_totalCount = JNum 0\<rparr>
   \<and> fetch_fails demo_platform logged_in (get_request demo_platform ''/api/Source/get'')
   \<and> fst (fetchSourceOptions demo_platform logged_in) = Inr []
   \<and> fetch_fails (demo_platform\<lparr>net := \<lambda>rq. Rejected 40 TypeError\<rparr>) logged_in
        (get_request (demo_platform\<lparr>net := \<lambda>rq. Rejected 40 TypeError\<rparr>)
           ''/api/staff/get?preserveHierarchy=true'')
   \<and> fst (fetchAgents (demo_platform\<lparr>net := \<lambda>rq. Rejected 40 TypeError\<rparr>)
            (Some \<lparr>user_id = ''u1'', user_role = ''agent'', user_lead_permissions = None\<rparr>)
            logged_in) = Inr []"
proof -
  let ?down = "demo_platform\<lparr>net := \<lambda>rq. Rejected 40 TypeError\<rparr>"
  let ?u = "Some \<lparr>user_id = ''u1'', user_role = ''agent'', user_lead_permissions = None\<rparr>"
  have h1: "userToken logged_out = None"
    by (simp add: logged_out_def)
  have h2: "fetch_fails demo_platform logged_in (get_request demo_platform ''/api/Source/get'')"
    by code_simp
  have h3: "fetch_fails ?down logged_in
              (get_request ?down ''/api/staff/get?preserveHierarchy=true'')"
    by code_simp
  from option_fetchers_never_throw [of demo_platform logged_out 1 2 "[]" None] h1
  have c1: "fst (fetchStatusOptions demo_platform logged_out) = Inr []"
    and c2: "fst (fetchTagOptions demo_platform 1 2 [] logged_out) =
       Inr \<lparr>tr_options = [], tr_hasMore = False, tr_totalCount = JNum 0\<rparr>"
    by simp_all
  from option_fetchers_never_throw [of demo_platform logged_in 1 2 "[]" None] h2
  have c3: "fst (fetchSourceOptions demo_platform logged_in) = Inr []"
    by simp
  from option_fetchers_never_throw [of ?down logged_in 1 2 "[]" ?u] h3
  have c4: "fst (fetchAgents ?down ?u logged_in) = Inr []"
    by simp
  from h1 c1 c2 h2 c3 h3 c4 show ?thesis
    by (intro conjI)
qed

section \<open>The shape \<^verbatim>\<open>fetchLeads\<close> returns\<close>

text \<open>
  C10 (as amended). For every 2xx leads response whose body parses to a JSON value other
  than \<^verbatim>\<open>null\<close>, \<^verbatim>\<open>fetchLeads\<close> returns a list as \<^verbatim>\<open>data\<close>: the response's
  \<^verbatim>\<open>data\<close> field when that is an array, the empty list otherwise. \<^verbatim>\<open>totalLeads\<close> is the
  response's field when that is truthy and 0 otherwise, so it is a number whenever the
  backend sends a number or sends nothing; a truthy value of another type is passed on
  as it is.
\<close>

theorem fetchLeads_shape:
  assumes "leads_answer P usr filters searchText pagination opts w = Some r"
    and "resp_ok r"
    and "JSON_parse P (resp_body r) = Some body"
    and "present body"
  shows "\<exists>d t res.
           get_prop body ''data'' = Inr d \<and> get_prop body ''totalLeads'' = Inr t \<and>
           fst (fetchLeads P usr filters searchText pagination opts w) = Inr res \<and>
           lr_data res = (case d of JArr xs \<Rightarrow> xs | _ \<Rightarrow> []) \<and>
           lr_totalLeads res = (if truthy t then t else JNum 0) \<and>
           (is_number t \<or> \<not> truthy t \<longrightarrow> is_number (lr_totalLeads res))"
proof -
  from assms(1) obtain u where u: "usr = Some u" "user_id u \<noteq> []"
    by (auto simp: leads_answer_def split: option.splits if_splits)
  from assms(1) u obtain w1 where v: "validateAuthToken P w = (Inr True, w1)"
    by (auto simp: leads_answer_def split: prod.splits sum.splits bool.splits)
  from assms(1) u v obtain hdrs w2 where h: "createAuthHeaders P w1 = (Inr hdrs, w2)"
    by (auto simp: leads_answer_def split: prod.splits sum.splits)
  from assms(1) u v h obtain requestBody where
    b: "buildLeadsRequestBody P u filters searchText pagination opts = Inr requestBody"
    by (auto simp: leads_answer_def split: sum.splits)
  from assms(1) u v h b obtain ms where
    n: "net P (leads_request P hdrs requestBody) = Responded ms r"
    by (auto simp: leads_answer_def split: net_outcome.splits)
  from get_prop_present [OF assms(4)] obtain d where d: "get_prop body ''data'' = Inr d"
    by blast
  from get_prop_present [OF assms(4)] obtain t where t: "get_prop body ''totalLeads'' = Inr t"
    by blast
  let ?res = "\<lparr>lr_data = (case d of JArr xs \<Rightarrow> xs | _ \<Rightarrow> []), lr_totalLeads = js_or t (JNum 0)\<rparr>"
  have f: "fst (fetchLeads P usr filters searchText pagination opts w) = Inr ?res"
    using u v h b n assms(2,3) d t
    by (simp add: fetchLeads_def bind_io_def lift_io_def fetch_def resp_json_def
        leads_of_data_def Let_def)
  have num: "is_number t \<or> \<not> truthy t \<longrightarrow> is_number (js_or t (JNum 0))"
    by (auto simp: js_or_def)
  show ?thesis
  proof (intro exI conjI)
    show "get_prop body ''data'' = Inr d" by (rule d)
    show "get_prop body ''totalLeads'' = Inr t" by (rule t)
    show "fst (fetchLeads P usr filters searchText pagination opts w) = Inr ?res" by (rule f)
    show "lr_data ?res = (case d of JArr xs \<Rightarrow> xs | _ \<Rightarrow> [])" by simp
    show "lr_totalLeads ?res = (if truthy t then t else JNum 0)" by (simp add: js_or_def)
    show "is_number t \<or> \<not> truthy t \<longrightarrow> is_number (lr_totalLeads ?res)"
      using num by simp
  qed
qed

theorem fetchLeads_shape_witness:
  "leads_answer demo_platform
     (Some \<lparr>user_id = ''u1'', user_role = ''agent'', user_lead_permissions = None\<rparr>)
     \<lparr>f_searchTerm = [], f_searchBoxFilters = None, f_selectedAgents = None,
      f_selectedStatuses = None, f_selectedSources = None, f_selectedTags = None,
      f_dateRange = None, f_dateFor = None\<rparr>
     ''rao'' \<lparr>p_page = 0, p_limit = 25\<rparr> no_options logged_in
     = Some \<lparr>resp_status = 200, resp_body = leads_page\<rparr>
   \<and> (\<exists>res. fst (fetchLeads demo_platform
          (Some \<lparr>user_id = ''u1'', user_role = ''agent'', user_lead_permissions = None\<rparr>)
          \<lparr>f_searchTerm = [], f_searchBoxFilters = None, f_selectedAgents = None,
           f_selectedStatuses = None, f_selectedSources = None, f_selectedTags = None,
           f_dateRange = None, f_dateFor = None\<rparr>
          ''rao'' \<lparr>p_page = 0, p_limit = 25\<rparr> no_options logged_in) = Inr res
        \<and> lr_data res = [JObj [(''_id'', JStr ''L1'')]]
        \<and> lr_totalLeads res = JNum 1)"
proof -
  let ?u = "Some \<lparr>user_id = ''u1'', user_role = ''agent'', user_lead_permissions = None\<rparr>"
  let ?f = "\<lparr>f_searchTerm = [], f_searchBoxFilters = None, f_selectedAgents = None,
      f_selectedStatuses = None, f_selectedSources = None, f_selectedTags = None,
      f_dateRange = None, f_dateFor = None\<rparr>"
  let ?b = "JObj [(''data'', JArr [JObj [(''_id'', JStr ''L1'')]]), (''totalLeads'', JNum 1)]"
  have a: "leads_answer demo_platform ?u ?f ''rao'' \<lparr>p_page = 0, p_limit = 25\<rparr> no_options
             logged_in = Some \<lparr>resp_status = 200, resp_body = leads_page\<rparr>"
    by code_simp
  have ok: "resp_ok \<lparr>resp_status = 200, resp_body = leads_page\<rparr>"
    by (simp add: resp_ok_def)
  have js: "JSON_parse demo_platform (resp_body \<lparr>resp_status = 200, resp_body = leads_page\<rparr>)
              = Some ?b"
    by code_simp
  have pr: "present ?b"
    by (simp add: present_def)
  from fetchLeads_shape [OF a ok js pr]
  have "\<exists>res. fst (fetchLeads demo_platform ?u ?f ''rao'' \<lparr>p_page = 0, p_limit = 25\<rparr>
                      no_options logged_in) = Inr res
        \<and> lr_data res = [JObj [(''_id'', JStr ''L1'')]]
        \<and> lr_totalLeads res = JNum 1"
    by auto
  with a show ?thesis by blast
qed

text \<open>
  The claim as first stated makes \<^verbatim>\<open>totalLeads\<close> a number whatever the body holds. A
  2xx body with \<^verbatim>\<open>"totalLeads":"12"\<close> comes back with the string, and on the 2xx body
  \<^verbatim>\<open>null\<close> the call throws a TypeError instead of returning.
\<close>

theorem fetchLeads_text_total_counterexample:
  "leads_answer demo_platform
     (Some \<lparr>user_id = ''u1'', user_role = ''agent'', user_lead_permissions = None\<rparr>)
     \<lparr>f_searchTerm = [], f_searchBoxFilters = None, f_selectedAgents = None,
      f_selectedStatuses = None, f_selectedSources = None, f_selectedTags = None,
      f_dateRange = None, f_dateFor = None\<rparr>
     ''text'' \<lparr>p_page = 0, p_limit = 25\<rparr> no_options logged_in
     = Some \<lparr>resp_status = 200, resp_body = leads_text_total\<rparr>
   \<and> fst (fetchLeads demo_platform
          (Some \<lparr>user_id = ''u1'', user_role = ''agent'', user_lead_permissions = None\<rparr>)
          \<lparr>f_searchTerm = [], f_searchBoxFilters = None, f_selectedAgents = None,
           f_selectedStatuses = None, f_selectedSources = None, f_selectedTags = None,
           f_dateRange = None, f_dateFor = None\<rparr>
          ''text'' \<lparr>p_page = 0, p_limit = 25\<rparr> no_options logged_in)
       = Inr \<lparr>lr_data = [], lr_totalLeads = JStr ''12''\<rparr>
   \<and> \<not> is_number (JStr ''12'')
   \<and> leads_answer demo_platform
       (Some \<lparr>user_id = ''u1'', user_role = ''agent'', user_lead_permissions = None\<rparr>)
       \<lparr>f_searchTerm = [], f_searchBoxFilters = None, f_selectedAgents = None,
        f_selectedStatuses = None, f_selectedSources = None, f_selectedTags = None,
        f_dateRange = None, f_dateFor = None\<rparr>
       ''null'' \<lparr>p_page = 0, p_limit = 25\<rparr> no_options logged_in
       = Some \<lparr>resp_status = 200, resp_body = ''null''\<rparr>
   \<and> fst (fetchLeads demo_platform
          (Some \<lparr>user_id = ''u1'', user_role = ''agent'', user_lead_permissions = None\<rparr>)
          \<lparr>f_searchTerm = [], f_searchBoxFilters = None, f_selectedAgents = None,
           f_selectedStatuses = None, f_selectedSources = None, f_selectedTags = None,
           f_dateRange = None, f_dateFor = None\<rparr>
          ''null'' \<lparr>p_page = 0, p_limit = 25\<rparr> no_options logged_in)
       = Inl TypeError"
  by code_simp

section \<open>The session check in front of the network\<close>












section \<open>The agent tree\<close>

lemma mapE_list_all2:
  assumes "\<And>x. x \<in> set xs \<Longrightarrow> \<exists>y. f x = Inr y \<and> R x y"
  shows "\<exists>ys. mapE (\<lambda>i. f) k xs = Inr ys \<and> list_all2 R xs ys"
  using assms
proof (induction xs arbitrary: k)
  case Nil
  then show ?case by simp
next
  case (Cons x xs)
  from Cons.prems [of x] obtain y where y: "f x = Inr y" "R x y" by auto
  from Cons.IH [of "Suc k"] Cons.prems obtain ys where
    ys: "mapE (\<lambda>i. f) (Suc k) xs = Inr ys" "list_all2 R xs ys"
    by auto
  from y ys show ?case by simp
qed

lemma transform_array:
  "transformAgentsDataToTreeSelect (JArr xs) =
     mapE (\<lambda>i userData.
             user_node userData
               (array_map (\<lambda>j subordinate.
                  subordinate_node subordinate
                    (transformAgentsDataToTreeSelect (JArr [subordinate]))))) 0 xs"
  by (subst transformAgentsDataToTreeSelect.simps) (simp add: array_map_def)

lemma wf_row_cases:
  assumes "wf_row row"
  obtains (leaf) subs where "present row" "get_prop row ''subordinates'' = Inr subs"
      "\<not> truthy subs" "\<not> isArray subs"
    | (inner) rows where "present row" "get_prop row ''subordinates'' = Inr (JArr rows)"
      "list_all wf_row rows"
proof -
  from assms have p: "present row"
    by (subst (asm) wf_row.simps) simp
  from get_prop_present [OF p] obtain subs where
    s: "get_prop row ''subordinates'' = Inr subs" by blast
  have unf: "wf_row row =
      (present row \<and> (case subs of JArr rows \<Rightarrow> list_all wf_row rows | _ \<Rightarrow> \<not> truthy subs))"
    using s by (subst wf_row.simps) simp
  show thesis
  proof (cases "isArray subs")
    case True
    then obtain rows where r: "subs = JArr rows" by (cases subs) auto
    with assms unf have "list_all wf_row rows" by simp
    with p s r show ?thesis by (intro inner) simp_all
  next
    case False
    with assms unf have "\<not> truthy subs" by (cases subs) auto
    with p s False show ?thesis by (intro leaf)
  qed
qed

lemma subordinate_node_mirrors:
  assumes wf: "wf_row s"
    and rec: "\<exists>n. transformAgentsDataToTreeSelect (JArr [s]) = Inr [n] \<and> mirrors s n"
  shows "\<exists>m. subordinate_node s (transformAgentsDataToTreeSelect (JArr [s])) = Inr m
              \<and> mirrors s m"
proof -
  from rec obtain n where n: "transformAgentsDataToTreeSelect (JArr [s]) = Inr [n]"
    and mn: "mirrors s n" by blast
  from wf show ?thesis
  proof (cases rule: wf_row_cases)
    case (leaf subs)
    from get_prop_present [OF leaf(1)] obtain sid where a: "get_prop s ''_id'' = Inr sid" by blast
    from get_prop_present [OF leaf(1)] obtain sname where
      b: "get_prop s ''username'' = Inr sname" by blast
    from get_prop_present [OF leaf(1)] obtain semail where
      c: "get_prop s ''email'' = Inr semail" by blast
    from get_prop_present [OF leaf(1)] obtain spersonal where
      d: "get_prop s ''personalemail'' = Inr spersonal" by blast
    from get_prop_present [OF leaf(1)] obtain sverified where
      e: "get_prop s ''isVerified'' = Inr sverified" by blast
    let ?m = "JObj [(''value'', sid), (''title'', sname), (''label'', sname),
                    (''email'', semail), (''personalEmail'', spersonal),
                    (''isVerified'', sverified), (''children'', Undefined)]"
    have "subordinate_node s (transformAgentsDataToTreeSelect (JArr [s])) = Inr ?m"
      using a b c d e leaf(2,3) by (simp add: subordinate_node_def)
    moreover have "mirrors s ?m"
      using a b leaf(2,4) by (subst mirrors.simps) (cases subs; simp)
    ultimately show ?thesis by blast
  next
    case (inner rows)
    from get_prop_present [OF inner(1)] obtain sid where a: "get_prop s ''_id'' = Inr sid" by blast
    from get_prop_present [OF inner(1)] obtain sname where
      b: "get_prop s ''username'' = Inr sname" by blast
    from get_prop_present [OF inner(1)] obtain semail where
      c: "get_prop s ''email'' = Inr semail" by blast
    from get_prop_present [OF inner(1)] obtain spersonal where
      d: "get_prop s ''personalemail'' = Inr spersonal" by blast
    from get_prop_present [OF inner(1)] obtain sverified where
      e: "get_prop s ''isVerified'' = Inr sverified" by blast
    from mn inner(2) obtain kids where
      k: "get_prop n ''children'' = Inr (JArr kids)" and lk: "list_all2 mirrors rows kids"
      by (subst (asm) mirrors.simps) (auto split: sum.splits jsval.splits)
    let ?m = "JObj [(''value'', sid), (''title'', sname), (''label'', sname),
                    (''email'', semail), (''personalEmail'', spersonal),
                    (''isVerified'', sverified), (''children'', JArr kids)]"
    have "subordinate_node s (transformAgentsDataToTreeSelect (JArr [s])) = Inr ?m"
      using a b c d e inner(2) n k by (simp add: subordinate_node_def)
    moreover have "mirrors s ?m"
      using a b inner(2) lk by (subst mirrors.simps) simp
    ultimately show ?thesis by blast
  qed
qed

lemma transform_single_row:
  "wf_row row \<Longrightarrow>
   \<exists>n. transformAgentsDataToTreeSelect (JArr [row]) = Inr [n] \<and> mirrors row n"
proof (induction row rule: wf_row.induct)
  case (1 row)
  let ?G = "array_map (\<lambda>j subordinate.
              subordinate_node subordinate
                (transformAgentsDataToTreeSelect (JArr [subordinate])))"
  have single: "transformAgentsDataToTreeSelect (JArr [row]) =
      (case user_node row ?G of Inl e \<Rightarrow> Inl e | Inr y \<Rightarrow> Inr [y])"
    by (subst transform_array) (simp split: sum.splits)
  from \<open>wf_row row\<close> show ?case
  proof (cases rule: wf_row_cases)
    case (leaf subs)
    from get_prop_present [OF leaf(1)] obtain uid where
      a: "get_prop row ''_id'' = Inr uid" by blast
    from get_prop_present [OF leaf(1)] obtain uname where
      b: "get_prop row ''username'' = Inr uname" by blast
    let ?n = "JObj [(''value'', uid), (''title'', uname), (''label'', uname),
                    (''children'', Undefined)]"
    have "user_node row ?G = Inr ?n"
      using a b leaf(2,3) by (simp add: user_node_def)
    with single have "transformAgentsDataToTreeSelect (JArr [row]) = Inr [?n]"
      by simp
    moreover have "mirrors row ?n"
      using a b leaf(2,4) by (subst mirrors.simps) (cases subs; simp)
    ultimately show ?thesis by blast
  next
    case (inner rows)
    from get_prop_present [OF inner(1)] obtain uid where
      a: "get_prop row ''_id'' = Inr uid" by blast
    from get_prop_present [OF inner(1)] obtain uname where
      b: "get_prop row ''username'' = Inr uname" by blast
    have each: "\<exists>m. subordinate_node s (transformAgentsDataToTreeSelect (JArr [s])) = Inr m
                     \<and> mirrors s m"
      if "s \<in> set rows" for s
    proof -
      from inner(3) that have wf: "wf_row s" by (simp add: list_all_iff)
      from "1.IH" [OF inner(2) refl that wf] wf show ?thesis
        by (rule subordinate_node_mirrors [rotated])
    qed
    have "\<exists>ys. mapE (\<lambda>j s. subordinate_node s (transformAgentsDataToTreeSelect (JArr [s])))
                  0 rows = Inr ys \<and> list_all2 mirrors rows ys"
      by (rule mapE_list_all2) (rule each)
    then obtain ms where ms: "?G (JArr rows) = Inr ms" and lm: "list_all2 mirrors rows ms"
      by (auto simp: array_map_def)
    let ?n = "JObj [(''value'', uid), (''title'', uname), (''label'', uname),
                    (''children'', JArr ms)]"
    have "user_node row ?G = Inr ?n"
      using a b inner(2) ms by (simp add: user_node_def)
    with single have "transformAgentsDataToTreeSelect (JArr [row]) = Inr [?n]"
      by simp
    moreover have "mirrors row ?n"
      using a b inner(2) lm by (subst mirrors.simps) simp
    ultimately show ?thesis by blast
  qed
qed

text \<open>
  C9 (as amended). For every list of well-formed agent rows (a JSON value is a finite
  tree, so the hierarchy is acyclic) the transform returns one node per row, and each
  node mirrors its row: \<^verbatim>\<open>value\<close> is the row's id, \<^verbatim>\<open>title\<close> and \<^verbatim>\<open>label\<close> are its
  display name, and the children repeat the subordinates level by level to the full
  depth. A row whose \<^verbatim>\<open>subordinates\<close> is missing or otherwise falsy gets the children
  value \<^verbatim>\<open>undefined\<close>; a row whose \<^verbatim>\<open>subordinates\<close> is the empty array gets the empty
  array of children.
\<close>

theorem transform_mirrors_hierarchy:
  assumes "list_all wf_row rows"
  shows "\<exists>nodes. transformAgentsDataToTreeSelect (JArr rows) = Inr nodes \<and>
           list_all2 mirrors rows nodes \<and>
           (\<forall>i<length rows. \<forall>subs.
              get_prop (rows ! i) ''subordinates'' = Inr subs \<longrightarrow>
              (\<not> truthy subs \<longrightarrow> get_prop (nodes ! i) ''children'' = Inr Undefined) \<and>
              (subs = JArr [] \<longrightarrow> get_prop (nodes ! i) ''children'' = Inr (JArr [])))"
proof -
  let ?G = "array_map (\<lambda>j subordinate.
              subordinate_node subordinate
                (transformAgentsDataToTreeSelect (JArr [subordinate])))"
  have each: "\<exists>n. user_node row ?G = Inr n \<and> mirrors row n" if "row \<in> set rows" for row
  proof -
    from assms that have "wf_row row" by (simp add: list_all_iff)
    from transform_single_row [OF this] obtain n where
      n: "transformAgentsDataToTreeSelect (JArr [row]) = Inr [n]" and m: "mirrors row n"
      by blast
    have "transformAgentsDataToTreeSelect (JArr [row]) =
      (case user_node row ?G of Inl e \<Rightarrow> Inl e | Inr y \<Rightarrow> Inr [y])"
      by (subst transform_array) (simp split: sum.splits)
    with n have "user_node row ?G = Inr n"
      by (auto split: sum.splits)
    with m show ?thesis by blast
  qed
  have "\<exists>ys. mapE (\<lambda>i row. user_node row ?G) 0 rows = Inr ys \<and> list_all2 mirrors rows ys"
    by (rule mapE_list_all2) (rule each)
  then obtain nodes where
    m: "mapE (\<lambda>i row. user_node row ?G) 0 rows = Inr nodes" and
    l: "list_all2 mirrors rows nodes"
    by blast
  have t: "transformAgentsDataToTreeSelect (JArr rows) = Inr nodes"
    by (subst transform_array) (rule m)
  have leaves: "(\<not> truthy subs \<longrightarrow> get_prop (nodes ! i) ''children'' = Inr Undefined) \<and>
                (subs = JArr [] \<longrightarrow> get_prop (nodes ! i) ''children'' = Inr (JArr []))"
    if i: "i < length rows" and s: "get_prop (rows ! i) ''subordinates'' = Inr subs"
    for i subs
  proof -
    from l i have m: "mirrors (rows ! i) (nodes ! i)"
      by (simp add: list_all2_conv_all_nth)
    show ?thesis
    proof (intro conjI impI)
      assume "\<not> truthy subs"
      with m s show "get_prop (nodes ! i) ''children'' = Inr Undefined"
        by (subst (asm) mirrors.simps) (cases subs; simp)
    next
      assume "subs = JArr []"
      with m s show "get_prop (nodes ! i) ''children'' = Inr (JArr [])"
        by (subst (asm) mirrors.simps) (auto split: sum.splits jsval.splits)
    qed
  qed
  from t l leaves show ?thesis by blast
qed

theorem transform_mirrors_hierarchy_witness:
  "list_all wf_row staff_rows
   \<and> (\<exists>nodes. transformAgentsDataToTreeSelect (JArr staff_rows) = Inr nodes \<and>
          list_all2 mirrors staff_rows nodes)
   \<and> transformAgentsDataToTreeSelect (JArr staff_rows) =
       Inr [JObj [(''value'', JStr ''r''), (''title'', JStr ''Root''), (''label'', JStr ''Root''),
                  (''children'',
                   JArr [JObj [(''value'', JStr ''s1''), (''title'', JStr ''Sub1''),
                               (''label'', JStr ''Sub1''),
                               (''email'', JStr ''sub1@crm.example''),
                               (''personalEmail'', Undefined), (''isVerified'', Undefined),
                               (''children'',
                                JArr [JObj [(''value'', JStr ''s2''), (''title'', JStr ''Sub2''),
                                            (''label'', JStr ''Sub2''), (''email'', Undefined),
                                            (''personalEmail'', Undefined),
                                            (''isVerified'', Undefined),
                                            (''children'', Undefined)]])]])],
            JObj [(''value'', JStr ''a''), (''title'', JStr ''Alone''), (''label'', JStr ''Alone''),
                  (''children'', Undefined)]]"
proof -
  have wf: "list_all wf_row staff_rows"
    by code_simp
  have sub1: "transformAgentsDataToTreeSelect
       (JArr [JObj [(''_id'', JStr ''s1''), (''username'', JStr ''Sub1''),
                    (''email'', JStr ''sub1@crm.example''),
                    (''subordinates'',
                     JArr [JObj [(''_id'', JStr ''s2''), (''username'', JStr ''Sub2'')]])]]) =
       Inr [JObj [(''value'', JStr ''s1''), (''title'', JStr ''Sub1''), (''label'', JStr ''Sub1''),
                  (''children'',
                   JArr [JObj [(''value'', JStr ''s2''), (''title'', JStr ''Sub2''),
                               (''label'', JStr ''Sub2''), (''email'', Undefined),
                               (''personalEmail'', Undefined), (''isVerified'', Undefined),
                               (''children'', Undefined)]])]]"
    by (subst transform_array) (simp add: user_node_def subordinate_node_def array_map_def)
  have run: "transformAgentsDataToTreeSelect (JArr staff_rows) =
       Inr [JObj [(''value'', JStr ''r''), (''title'', JStr ''Root''), (''label'', JStr ''Root''),
                  (''children'',
                   JArr [JObj [(''value'', JStr ''s1''), (''title'', JStr ''Sub1''),
                               (''label'', JStr ''Sub1''),
                               (''email'', JStr ''sub1@crm.example''),
                               (''personalEmail'', Undefined), (''isVerified'', Undefined),
                               (''children'',
                                JArr [JObj [(''value'', JStr ''s2''), (''title'', JStr ''Sub2''),
                                            (''label'', JStr ''Sub2''), (''email'', Undefined),
                                            (''personalEmail'', Undefined),
                                            (''isVerified'', Undefined),
                                            (''children'', Undefined)]])]])],
            JObj [(''value'', JStr ''a''), (''title'', JStr ''Alone''), (''label'', JStr ''Alone''),
                  (''children'', Undefined)]]"
    unfolding staff_rows_def
    by (subst transform_array)
      (simp add: user_node_def subordinate_node_def array_map_def sub1)
  from transform_mirrors_hierarchy [OF wf]
  have "\<exists>nodes. transformAgentsDataToTreeSelect (JArr staff_rows) = Inr nodes \<and>
          list_all2 mirrors staff_rows nodes"
    by blast
  with wf run show ?thesis by (intro conjI)
qed

text \<open>
  The claim as first stated gives every row with no subordinates a node without a
  children value. A row whose \<^verbatim>\<open>subordinates\<close> is the empty array has no subordinates,
  and its node's \<^verbatim>\<open>children\<close> is the empty array: an array is truthy even when empty.
\<close>

theorem empty_subordinates_counterexample:
  "transformAgentsDataToTreeSelect
     (JArr [JObj [(''_id'', JStr ''e''), (''username'', JStr ''Empty''),
                  (''subordinates'', JArr [])]])
     = Inr [JObj [(''value'', JStr ''e''), (''title'', JStr ''Empty''),
                  (''label'', JStr ''Empty''), (''children'', JArr [])]]
   \<and> get_prop (JObj [(''value'', JStr ''e''), (''title'', JStr ''Empty''),
                     (''label'', JStr ''Empty''), (''children'', JArr [])]) ''children''
       = Inr (JArr [])
   \<and> JArr [] \<noteq> Undefined"
  by (subst transform_array) (simp add: user_node_def array_map_def)

end
